theory Spec2Isabelle
  imports Main "HOL-Library.List_Lexorder"
begin

section \<open>Text: Python strings as lists of code points\<close>

text \<open>
  A Python \<open>str\<close> is a sequence of Unicode code points, so a string is a list of
  naturals. The library functions the two scripts call (\<open>str.strip\<close>, \<open>str.lower\<close>,
  \<open>str.upper\<close>, \<open>unicodedata.normalize("NFKD", _)\<close>, \<open>unicodedata.combining\<close>, the
  regular-expression classes \<open>\s\<close>, \<open>\d\<close>, \<open>[a-z]\<close>) are given by their tables on the
  code points that occur in the reports: ASCII, the eighteen Polish letters with
  diacritics, the combining marks U+0300..U+036F, the white space of \<open>str.isspace\<close>, and
  the compatibility characters U+00A0 and U+2122. Every other code point is taken to be
  caseless and without decomposition.
\<close>

type_synonym ustring = "nat list"

definition u :: "string \<Rightarrow> ustring" where
  "u s = map of_char s"

definition is_space :: "nat \<Rightarrow> bool" where
  "is_space c \<longleftrightarrow>
     (0x9 \<le> c \<and> c \<le> 0xD) \<or> (0x1C \<le> c \<and> c \<le> 0x20) \<or> c = 0x85 \<or> c = 0xA0 \<or>
     c = 0x1680 \<or> (0x2000 \<le> c \<and> c \<le> 0x200A) \<or> c = 0x2028 \<or> c = 0x2029 \<or>
     c = 0x202F \<or> c = 0x205F \<or> c = 0x3000"

definition lower_char :: "nat \<Rightarrow> nat" where
  "lower_char c =
     (if 0x41 \<le> c \<and> c \<le> 0x5A then c + 0x20
      else if c = 0xD3 then 0xF3
      else if c \<in> {0x104, 0x106, 0x118, 0x141, 0x143, 0x15A, 0x179, 0x17B} then c + 1
      else c)"

definition upper_char :: "nat \<Rightarrow> nat" where
  "upper_char c =
     (if 0x61 \<le> c \<and> c \<le> 0x7A then c - 0x20
      else if c = 0xF3 then 0xD3
      else if c \<in> {0x105, 0x107, 0x119, 0x142, 0x144, 0x15B, 0x17A, 0x17C} then c - 1
      else c)"

text \<open>
  The compatibility decomposition of one code point. The letters with a stroke, U+0141
  and U+0142, have no decomposition in Unicode and stay as they are.
\<close>

definition nfkd_char :: "nat \<Rightarrow> ustring" where
  "nfkd_char c =
     (if c = 0x104 then [0x41, 0x328] else if c = 0x105 then [0x61, 0x328]
      else if c = 0x106 then [0x43, 0x301] else if c = 0x107 then [0x63, 0x301]
      else if c = 0x118 then [0x45, 0x328] else if c = 0x119 then [0x65, 0x328]
      else if c = 0x143 then [0x4E, 0x301] else if c = 0x144 then [0x6E, 0x301]
      else if c = 0xD3 then [0x4F, 0x301] else if c = 0xF3 then [0x6F, 0x301]
      else if c = 0x15A then [0x53, 0x301] else if c = 0x15B then [0x73, 0x301]
      else if c = 0x179 then [0x5A, 0x301] else if c = 0x17A then [0x7A, 0x301]
      else if c = 0x17B then [0x5A, 0x307] else if c = 0x17C then [0x7A, 0x307]
      else if c = 0xA0 then [0x20]
      else if c = 0x2122 then [0x54, 0x4D]
      else [c])"

definition combining :: "nat \<Rightarrow> bool" where
  "combining c \<longleftrightarrow> 0x300 \<le> c \<and> c \<le> 0x36F \<and> c \<noteq> 0x34F"

definition py_strip :: "ustring \<Rightarrow> ustring" where
  "py_strip s = rev (dropWhile is_space (rev (dropWhile is_space s)))"

definition py_lower :: "ustring \<Rightarrow> ustring" where
  "py_lower s = map lower_char s"

definition py_upper :: "ustring \<Rightarrow> ustring" where
  "py_upper s = map upper_char s"

text \<open>\<open>"".join(c for c in unicodedata.normalize("NFKD", s) if not unicodedata.combining(c))\<close>\<close>

definition strip_marks :: "ustring \<Rightarrow> ustring" where
  "strip_marks s = filter (\<lambda>c. \<not> combining c) (concat (map nfkd_char s))"

text \<open>
  \<open>re.sub(r"\s+", " ", s)\<close>: every maximal run of white space becomes one space. The
  flag says that the previous character was white space.
\<close>

fun collapse_ws :: "bool \<Rightarrow> ustring \<Rightarrow> ustring" where
  "collapse_ws b [] = []"
| "collapse_ws b (c # cs) =
     (if is_space c then (if b then collapse_ws True cs else 0x20 # collapse_ws True cs)
      else c # collapse_ws False cs)"

definition MISSING_TOKENS :: "ustring list" where
  "MISSING_TOKENS =
     [u ''---'', u ''--'', [0x2014], u ''-'', u ''brak'', u ''brak danych'', u ''nan'',
      u ''none'', []]"

text \<open>
  A cell of a table is \<open>None\<close> (Python's \<open>None\<close>, or the NaN of an empty cell, whose
  \<open>str\<close> is the missing token \<open>nan\<close>) or a string.
\<close>

type_synonym cell = "ustring option"

definition norm_missing :: "cell \<Rightarrow> cell" where
  "norm_missing x =
     (case x of
        None \<Rightarrow> None
      | Some x' \<Rightarrow>
          (let s = py_strip x' in if py_lower s \<in> set MISSING_TOKENS then None else Some s))"

section \<open>Stage 2: the key normaliser\<close>

text \<open>\<open>norm_key\<close> of czyszczenieadresu2.py; \<open>str(s or "")\<close> turns \<open>None\<close> into the empty string.\<close>

definition norm_key2 :: "ustring \<Rightarrow> ustring" where
  "norm_key2 s = py_strip (collapse_ws False (strip_marks (py_lower (py_strip s))))"

section \<open>Stage 1: the historical voivodeships\<close>

definition DOLNOSLASKIE :: ustring where
  "DOLNOSLASKIE = u ''DOLNO'' @ [0x15A] @ u ''L'' @ [0x104] @ u ''SKIE''"

definition KUJAWSKO_POMORSKIE :: ustring where
  "KUJAWSKO_POMORSKIE = u ''KUJAWSKO-POMORSKIE''"

definition LUBELSKIE :: ustring where
  "LUBELSKIE = u ''LUBELSKIE''"

definition LUBUSKIE :: ustring where
  "LUBUSKIE = u ''LUBUSKIE''"

definition LODZKIE :: ustring where
  "LODZKIE = [0x141, 0xD3] @ u ''DZKIE''"

definition MALOPOLSKIE :: ustring where
  "MALOPOLSKIE = u ''MA'' @ [0x141] @ u ''OPOLSKIE''"

definition MAZOWIECKIE :: ustring where
  "MAZOWIECKIE = u ''MAZOWIECKIE''"

definition OPOLSKIE :: ustring where
  "OPOLSKIE = u ''OPOLSKIE''"

definition PODKARPACKIE :: ustring where
  "PODKARPACKIE = u ''PODKARPACKIE''"

definition PODLASKIE :: ustring where
  "PODLASKIE = u ''PODLASKIE''"

definition POMORSKIE :: ustring where
  "POMORSKIE = u ''POMORSKIE''"

definition SLASKIE :: ustring where
  "SLASKIE = [0x15A] @ u ''L'' @ [0x104] @ u ''SKIE''"

definition SWIETOKRZYSKIE :: ustring where
  "SWIETOKRZYSKIE = [0x15A] @ u ''WI'' @ [0x118] @ u ''TOKRZYSKIE''"

definition WARMINSKO_MAZURSKIE :: ustring where
  "WARMINSKO_MAZURSKIE = u ''WARMI'' @ [0x143] @ u ''SKO-MAZURSKIE''"

definition WIELKOPOLSKIE :: ustring where
  "WIELKOPOLSKIE = u ''WIELKOPOLSKIE''"

definition ZACHODNIOPOMORSKIE :: ustring where
  "ZACHODNIOPOMORSKIE = u ''ZACHODNIOPOMORSKIE''"

text \<open>The dictionary literal of \<open>HISTORICAL_VOIVODESHIP_MAP\<close>, in the order of the source.\<close>

definition HISTORICAL_BASE :: "(ustring \<times> ustring) list" where
  "HISTORICAL_BASE =
     [(u ''wroclawskie'', DOLNOSLASKIE),
      (u ''jeleniogorskie'', DOLNOSLASKIE),
      (u ''walbrzyskie'', DOLNOSLASKIE),
      (u ''legnickie'', DOLNOSLASKIE),
      (u ''bydgoskie'', KUJAWSKO_POMORSKIE),
      (u ''torunskie'', KUJAWSKO_POMORSKIE),
      (u ''wloclawskie'', KUJAWSKO_POMORSKIE),
      (u ''lubelskie'', LUBELSKIE),
      (u ''bialskopodlaskie'', LUBELSKIE),
      (u ''chelmskie'', LUBELSKIE),
      (u ''zamojskie'', LUBELSKIE),
      (u ''zielonogorskie'', LUBUSKIE),
      (u ''gorzowskie'', LUBUSKIE),
      (u ''lodzkie'', LODZKIE),
      (u ''piotrkowskie'', LODZKIE),
      (u ''sieradzkie'', LODZKIE),
      (u ''skierniewickie'', LODZKIE),
      (u ''krakowskie'', MALOPOLSKIE),
      (u ''tarnowskie'', MALOPOLSKIE),
      (u ''nowosadeckie'', MALOPOLSKIE),
      (u ''warszawskie'', MAZOWIECKIE),
      (u ''plockie'', MAZOWIECKIE),
      (u ''ciechanowskie'', MAZOWIECKIE),
      (u ''ostroleckie'', MAZOWIECKIE),
      (u ''siedleckie'', MAZOWIECKIE),
      (u ''radomskie'', MAZOWIECKIE),
      (u ''opolskie'', OPOLSKIE),
      (u ''rzeszowskie'', PODKARPACKIE),
      (u ''przemyskie'', PODKARPACKIE),
      (u ''krosnienskie'', PODKARPACKIE),
      (u ''tarnobrzeskie'', PODKARPACKIE),
      (u ''bialostockie'', PODLASKIE),
      (u ''lomzynskie'', PODLASKIE),
      (u ''suwalskie'', PODLASKIE),
      (u ''gdanskie'', POMORSKIE),
      (u ''slupskie'', POMORSKIE),
      (u ''katowickie'', SLASKIE),
      (u ''bielskie'', SLASKIE),
      (u ''czestochowskie'', SLASKIE),
      (u ''kieleckie'', SWIETOKRZYSKIE),
      (u ''olsztynskie'', WARMINSKO_MAZURSKIE),
      (u ''elblaskie'', WARMINSKO_MAZURSKIE),
      (u ''poznanskie'', WIELKOPOLSKIE),
      (u ''kaliskie'', WIELKOPOLSKIE),
      (u ''koninskie'', WIELKOPOLSKIE),
      (u ''leszczynskie'', WIELKOPOLSKIE),
      (u ''pilskie'', WIELKOPOLSKIE),
      (u ''szczecinskie'', ZACHODNIOPOMORSKIE),
      (u ''koszalinskie'', ZACHODNIOPOMORSKIE)]"

text \<open>
  The loop after the literal stores, for every item \<open>(k, v)\<close> of the literal, the keys
  \<open>"wojewodztwo " + k\<close> and \<open>k + " wojewodztwo"\<close> with the same value.
\<close>

definition add_variants :: "ustring \<times> ustring \<Rightarrow> (ustring \<rightharpoonup> ustring) \<Rightarrow> (ustring \<rightharpoonup> ustring)" where
  "add_variants kv m =
     (m(u ''wojewodztwo '' @ fst kv \<mapsto> snd kv))(fst kv @ u '' wojewodztwo'' \<mapsto> snd kv)"

definition HISTORICAL_VOIVODESHIP_MAP :: "ustring \<rightharpoonup> ustring" where
  "HISTORICAL_VOIVODESHIP_MAP = fold add_variants HISTORICAL_BASE (map_of HISTORICAL_BASE)"

text \<open>\<open>m.get(k)\<close>: the value stored for a key, or \<open>None\<close>.\<close>

definition dict_get :: "('k \<rightharpoonup> 'v) \<Rightarrow> 'k \<Rightarrow> 'v option" where
  "dict_get m k = m k"

definition is_az :: "nat \<Rightarrow> bool" where
  "is_az c \<longleftrightarrow> 0x61 \<le> c \<and> c \<le> 0x7A"

text \<open>\<open>re.sub(r"[^a-z\s]", " ", s)\<close>\<close>

definition blank_non_letters :: "ustring \<Rightarrow> ustring" where
  "blank_non_letters s = map (\<lambda>c. if is_az c \<or> is_space c then c else 0x20) s"

text \<open>\<open>norm_key\<close> of czyszczenieadresu1.py: \<open>None\<close> for \<open>None\<close>, for the empty string and for an empty key.\<close>

definition norm_key1 :: "cell \<Rightarrow> cell" where
  "norm_key1 x =
     (case x of
        None \<Rightarrow> None
      | Some s \<Rightarrow>
          if s = [] then None
          else
            (let k = py_strip (collapse_ws False (blank_non_letters
                       (strip_marks (py_lower (py_strip s)))))
             in if k = [] then None else Some k))"

text \<open>
  \<open>s.replace(old, "")\<close> for a non-empty \<open>old\<close>: every occurrence, found from the left and
  not overlapping, is removed. The counter is the number of characters of the current
  occurrence still to skip.
\<close>

fun remove_all :: "ustring \<Rightarrow> nat \<Rightarrow> ustring \<Rightarrow> ustring" where
  "remove_all old k [] = []"
| "remove_all old k (c # cs) =
     (if 0 < k then remove_all old (k - 1) cs
      else if take (length old) (c # cs) = old then remove_all old (length old - 1) cs
      else c # remove_all old 0 cs)"

definition replace_historical_voivodeship :: "cell \<Rightarrow> cell" where
  "replace_historical_voivodeship val0 =
     (case norm_missing val0 of
        None \<Rightarrow> None
      | Some val \<Rightarrow>
          (case norm_key1 (Some val) of
             None \<Rightarrow> None
           | Some key \<Rightarrow>
               (case dict_get HISTORICAL_VOIVODESHIP_MAP key of
                  Some v \<Rightarrow> Some v
                | None \<Rightarrow>
                    (let key2 = py_strip (remove_all (u ''wojewodztwo '') 0 key)
                     in case dict_get HISTORICAL_VOIVODESHIP_MAP key2 of
                          Some v \<Rightarrow> Some v
                        | None \<Rightarrow> Some (py_upper val)))))"

section \<open>Stage 2: court code, hints and the locality guess\<close>

text \<open>\<open>title_pl\<close>: the first character in upper case, the rest as it is.\<close>

definition title_pl :: "ustring \<Rightarrow> ustring" where
  "title_pl s0 = (let s = py_strip s0 in if s = [] then [] else py_upper (take 1 s) @ drop 1 s)"

text \<open>
  \<open>[A-Z]\<close> under \<open>re.I\<close> matches the 52 ASCII letters and the four letters U+0130, U+0131,
  U+017F and U+212A; \<open>\d\<close> is given on the ASCII digits.
\<close>

definition is_letter_i :: "nat \<Rightarrow> bool" where
  "is_letter_i c \<longleftrightarrow>
     (0x41 \<le> c \<and> c \<le> 0x5A) \<or> (0x61 \<le> c \<and> c \<le> 0x7A) \<or> c \<in> {0x130, 0x131, 0x17F, 0x212A}"

definition is_digit :: "nat \<Rightarrow> bool" where
  "is_digit c \<longleftrightarrow> 0x30 \<le> c \<and> c \<le> 0x39"

text \<open>
  \<open>KW_COURT_RE = ^\s*([A-Z]{2}\d[A-Z])\s*/\<close>, matched at the start of the stripped,
  upper-cased number. The cell is \<open>None\<close> when the report has no column \<open>Nr KW\<close>.
\<close>

definition extract_court_code :: "cell \<Rightarrow> cell" where
  "extract_court_code nr_kw =
     (case nr_kw of
        None \<Rightarrow> None
      | Some kw \<Rightarrow>
          if kw = [] then None
          else
            (case dropWhile is_space (py_upper (py_strip kw)) of
               a # b # d # c # rest \<Rightarrow>
                 if is_letter_i a \<and> is_letter_i b \<and> is_digit d \<and> is_letter_i c \<and>
                    take 1 (dropWhile is_space rest) = u ''/''
                 then Some [a, b, d, c] else None
             | _ \<Rightarrow> None))"

text \<open>
  \<open>re.split\<close> on a pattern \<open>[...]+\<close>: the pieces between the maximal runs of delimiters,
  the empty pieces at both ends included. The flag says that the previous character was a
  delimiter, \<open>cur\<close> is the piece read so far.
\<close>

fun split_on :: "(nat \<Rightarrow> bool) \<Rightarrow> bool \<Rightarrow> ustring \<Rightarrow> ustring \<Rightarrow> ustring list" where
  "split_on P b cur [] = [cur]"
| "split_on P b cur (c # cs) =
     (if P c then (if b then split_on P True cur cs else cur # split_on P True [] cs)
      else split_on P False (cur @ [c]) cs)"

definition is_delim :: "nat \<Rightarrow> bool" where
  "is_delim c \<longleftrightarrow> c = 0x7C \<or> c = 0x2C \<or> c = 0x3B"

text \<open>\<open>SPLIT_RE.split(hint)\<close> with \<open>SPLIT_RE = [|,;]+\<close>\<close>

definition split_hint :: "ustring \<Rightarrow> ustring list" where
  "split_hint hint = split_on is_delim False [] hint"

fun join :: "ustring \<Rightarrow> ustring list \<Rightarrow> ustring" where
  "join sep [] = []"
| "join sep [x] = x"
| "join sep (x # y # ys) = x @ sep @ join sep (y # ys)"

definition truthy :: "cell \<Rightarrow> bool" where
  "truthy c = (case c of None \<Rightarrow> False | Some s \<Rightarrow> s \<noteq> [])"

text \<open>
  A row of the report: the four administrative columns, the registry number, and the
  other columns of \<open>HINT_COLS\<close>. A column that the sheet does not have is \<open>None\<close> in every
  row.
\<close>

record raport_row =
  col_woj :: cell
  col_pow :: cell
  col_gmi :: cell
  col_mia :: cell
  col_kw :: cell
  col_addr_hint :: cell
  col_caly_adres :: cell
  col_polozenie :: cell
  col_ulica_lokal :: cell
  col_ulica_budynek :: cell
  col_ulica :: cell
  col_dzielnica :: cell

definition HINT_COLS :: "(raport_row \<Rightarrow> cell) list" where
  "HINT_COLS =
     [col_addr_hint, col_caly_adres, col_polozenie, col_ulica_lokal, col_ulica_budynek,
      col_ulica, col_dzielnica, col_mia]"

definition build_hint_text :: "raport_row \<Rightarrow> ustring" where
  "build_hint_text row =
     join (u '' | '')
       (map the (filter truthy (map (\<lambda>c. norm_missing (c row)) HINT_COLS)))"

datatype py_error = KeyError

definition lookup :: "('k \<rightharpoonup> 'v) \<Rightarrow> 'k \<Rightarrow> py_error + 'v" where
  "lookup m k = (case m k of None \<Rightarrow> Inl KeyError | Some v \<Rightarrow> Inr v)"

definition PREFIXES :: "ustring list" where
  "PREFIXES =
     [u ''ul'', u ''ulica'', u ''al'', u ''aleja'', u ''os'', u ''osiedle'', u ''pl'', u ''plac'']"

text \<open>
  One alternative of \<open>^(ul|ulica|...)\.?\s+\<close> at the start of a segment: the prefix, an
  optional full stop, at least one white space. The result is what is left of the
  segment after the match.
\<close>

definition match_prefix :: "ustring \<Rightarrow> ustring \<Rightarrow> ustring option" where
  "match_prefix p seg =
     (if take (length p) seg = p then
        (let r = drop (length p) seg;
             r' = (if take 1 r = u ''.'' then drop 1 r else r)
         in if r' \<noteq> [] \<and> is_space (hd r') then Some (dropWhile is_space r') else None)
      else None)"

text \<open>The alternatives are tried in the order of the pattern; without a match the segment stays.\<close>

fun sub_prefix :: "ustring list \<Rightarrow> ustring \<Rightarrow> ustring" where
  "sub_prefix [] seg = seg"
| "sub_prefix (p # ps) seg =
     (case match_prefix p seg of Some r \<Rightarrow> r | None \<Rightarrow> sub_prefix ps seg)"

text \<open>
  The loops of \<open>guess_miejscowosc_from_hint\<close>. Each returns \<open>None\<close> when it ends without a
  \<open>return\<close>, and otherwise what the function returns: the canonical name, or the
  \<open>KeyError\<close> of \<open>miejsc_key_to_canon[...]\<close>.
\<close>

fun scan_segments ::
  "ustring list \<Rightarrow> ustring set \<Rightarrow> (ustring \<rightharpoonup> ustring) \<Rightarrow> (py_error + ustring) option" where
  "scan_segments [] K canon = None"
| "scan_segments (seg0 # segs) K canon =
     (let seg = py_strip (sub_prefix PREFIXES (py_strip seg0))
      in if seg \<in> K then Some (lookup canon seg) else scan_segments segs K canon)"

fun scan_offsets ::
  "nat \<Rightarrow> ustring list \<Rightarrow> nat list \<Rightarrow> ustring set \<Rightarrow> (ustring \<rightharpoonup> ustring) \<Rightarrow>
   (py_error + ustring) option" where
  "scan_offsets n words [] K canon = None"
| "scan_offsets n words (i # is) K canon =
     (let phrase = py_strip (join (u '' '') (take n (drop i words)))
      in if phrase \<in> K then Some (lookup canon phrase) else scan_offsets n words is K canon)"

fun scan_ngrams ::
  "nat list \<Rightarrow> ustring list \<Rightarrow> ustring set \<Rightarrow> (ustring \<rightharpoonup> ustring) \<Rightarrow>
   (py_error + ustring) option" where
  "scan_ngrams [] words K canon = None"
| "scan_ngrams (n # ns) words K canon =
     (if length words < n then scan_ngrams ns words K canon
      else
        (case scan_offsets n words [0..<length words - n + 1] K canon of
           Some r \<Rightarrow> Some r
         | None \<Rightarrow> scan_ngrams ns words K canon))"

text \<open>Stage 1 of the heuristic: the segments of the hint, from the last to the first.\<close>

definition segment_stage ::
  "ustring \<Rightarrow> ustring set \<Rightarrow> (ustring \<rightharpoonup> ustring) \<Rightarrow> (py_error + ustring) option" where
  "segment_stage hint K canon =
     (let segs = filter (\<lambda>s. s \<noteq> []) (map norm_key2 (split_hint hint))
      in scan_segments (rev segs) K canon)"

text \<open>Stage 2 of the heuristic: the word n-grams of the normalised hint \<open>h\<close>.\<close>

definition ngram_stage ::
  "ustring \<Rightarrow> ustring set \<Rightarrow> (ustring \<rightharpoonup> ustring) \<Rightarrow> (py_error + ustring) option" where
  "ngram_stage h K canon =
     (let words = filter (\<lambda>w. w \<noteq> []) (split_on is_space False [] h)
      in scan_ngrams [4, 3, 2, 1] words K canon)"

definition guess_miejscowosc_from_hint ::
  "ustring \<Rightarrow> ustring set \<Rightarrow> (ustring \<rightharpoonup> ustring) \<Rightarrow> py_error + cell" where
  "guess_miejscowosc_from_hint hint K canon =
     (let h = norm_key2 hint in
      if h = [] then Inr None
      else
        (case segment_stage hint K canon of
           Some (Inl e) \<Rightarrow> Inl e
         | Some (Inr name) \<Rightarrow> Inr (Some name)
         | None \<Rightarrow>
             (case ngram_stage h K canon of
                Some (Inl e) \<Rightarrow> Inl e
              | Some (Inr name) \<Rightarrow> Inr (Some name)
              | None \<Rightarrow> Inr None)))"

section \<open>Stage 2: the reference indexes\<close>

text \<open>\<open>x or ""\<close> for a cell read with \<open>r.get\<close>.\<close>

definition or_empty :: "cell \<Rightarrow> ustring" where
  "or_empty c = (case c of None \<Rightarrow> [] | Some s \<Rightarrow> s)"

text \<open>\<open>x or None\<close> for a string.\<close>

definition or_none :: "ustring \<Rightarrow> cell" where
  "or_none s = (if s = [] then None else Some s)"

definition setdefault :: "('k \<rightharpoonup> 'v) \<Rightarrow> 'k \<Rightarrow> 'v \<Rightarrow> ('k \<rightharpoonup> 'v)" where
  "setdefault m k v = (case m k of None \<Rightarrow> m(k \<mapsto> v) | Some _ \<Rightarrow> m)"

text \<open>A row of teryt.csv, as \<open>load_teryt\<close> delivers it.\<close>

record teryt_row =
  t_woj :: cell
  t_pow :: cell
  t_gmi :: cell
  t_miejsc :: cell

type_synonym canon_map = "ustring \<rightharpoonup> ustring"
type_synonym rows_map = "ustring \<rightharpoonup> (ustring \<times> ustring \<times> ustring) list"

text \<open>The body of the loop of \<open>build_teryt_index\<close>, on the two dictionaries.\<close>

definition teryt_step :: "teryt_row \<Rightarrow> canon_map \<times> rows_map \<Rightarrow> canon_map \<times> rows_map" where
  "teryt_step r st =
     (let miejsc = py_strip (or_empty (t_miejsc r));
          woj = py_strip (or_empty (t_woj r));
          powiat = py_strip (or_empty (t_pow r));
          gmina = py_strip (or_empty (t_gmi r))
      in if miejsc = [] then st
         else
           (let k = norm_key2 miejsc
            in if k = [] then st
               else
                 (setdefault (fst st) k miejsc,
                  (snd st)(k \<mapsto> (case snd st k of None \<Rightarrow> [] | Some l \<Rightarrow> l) @ [(woj, powiat, gmina)]))))"

definition build_teryt_index :: "teryt_row list \<Rightarrow> ustring set \<times> canon_map \<times> rows_map" where
  "build_teryt_index teryt =
     (let st = fold teryt_step teryt (Map.empty, Map.empty)
      in (dom (fst st), fst st, snd st))"

text \<open>
  A row of obszar_sadow.xlsx, as \<open>read_excel\<close> delivers it: \<open>None\<close> is the NaN of an empty
  cell, which is truthy and has the \<open>str\<close> \<open>nan\<close>. The table says whether it has the column
  of the court codes; the other columns are there.
\<close>

record obszar_row =
  o_code :: cell
  o_woj :: cell
  o_pow :: cell
  o_gmi :: cell
  o_miejsc :: cell

record obszar_table =
  has_oznaczenie :: bool
  obszar_rows :: "obszar_row list"

text \<open>\<open>str(x or "")\<close> for a cell of the table.\<close>

definition str_or_empty :: "cell \<Rightarrow> ustring" where
  "str_or_empty c = (case c of None \<Rightarrow> u ''nan'' | Some s \<Rightarrow> s)"

text \<open>\<open>Series.unique()\<close>: the distinct values in the order of their first appearance.\<close>

fun unique_acc :: "'a list \<Rightarrow> 'a list \<Rightarrow> 'a list" where
  "unique_acc seen [] = []"
| "unique_acc seen (x # xs) =
     (if x \<in> set seen then unique_acc seen xs else x # unique_acc (seen @ [x]) xs)"

type_synonym miejsc_map = "ustring \<rightharpoonup> ustring \<times> ustring \<times> ustring \<times> ustring"
type_synonym court_woj_map = "ustring \<rightharpoonup> ustring"
type_synonym court_miejsc_map = "ustring \<rightharpoonup> miejsc_map"

text \<open>The inner loop of \<open>build_obszar_index\<close>, over the rows of one group.\<close>

definition obszar_row_step :: "obszar_row \<Rightarrow> miejsc_map \<Rightarrow> miejsc_map" where
  "obszar_row_step r m_map =
     (let miejsc = py_strip (str_or_empty (o_miejsc r))
      in if miejsc = [] \<or> py_lower miejsc = u ''nan'' then m_map
         else
           setdefault m_map (norm_key2 miejsc)
             (py_strip (str_or_empty (o_woj r)), py_strip (str_or_empty (o_pow r)),
              py_strip (str_or_empty (o_gmi r)), miejsc))"

text \<open>
  \<open>woj_vals\<close> of one group: the non-NaN values of the column, distinct, stripped, without
  the empty string and without \<open>nan\<close>.
\<close>

definition woj_vals :: "obszar_row list \<Rightarrow> ustring list" where
  "woj_vals g =
     filter (\<lambda>w. w \<noteq> [] \<and> py_lower w \<noteq> u ''nan'')
       (map py_strip (unique_acc [] (List.map_filter o_woj g)))"

text \<open>
  The body of the loop over \<open>obs.groupby\<close> on the column of the court codes: \<open>key\<close> is the
  value of the column as it stands in the table, and the group has the rows with exactly this value.
\<close>

definition obszar_group_step ::
  "obszar_row list \<Rightarrow> ustring \<Rightarrow> court_woj_map \<times> court_miejsc_map \<Rightarrow>
   court_woj_map \<times> court_miejsc_map" where
  "obszar_group_step rows key st =
     (let g = filter (\<lambda>r. o_code r = Some key) rows;
          code = py_upper (py_strip key);
          ws = woj_vals g;
          court_to_woj =
            (if length (remdups ws) = 1 then (fst st)(code \<mapsto> hd ws) else fst st);
          m_map = fold obszar_row_step g Map.empty
      in (court_to_woj, (snd st)(code \<mapsto> m_map)))"

text \<open>\<open>groupby\<close> drops the rows without a key and visits the keys in ascending order.\<close>

definition group_keys :: "obszar_row list \<Rightarrow> ustring list" where
  "group_keys rows = sort (remdups (List.map_filter o_code rows))"

definition build_obszar_index :: "obszar_table \<Rightarrow> court_woj_map \<times> court_miejsc_map" where
  "build_obszar_index obs =
     (if \<not> has_oznaczenie obs then (Map.empty, Map.empty)
      else
        fold (obszar_group_step (obszar_rows obs)) (group_keys (obszar_rows obs))
          (Map.empty, Map.empty))"

section \<open>Stage 2: completing a row\<close>

definition fill_from_teryt :: "ustring \<Rightarrow> cell \<Rightarrow> rows_map \<Rightarrow> cell \<times> cell \<times> cell" where
  "fill_from_teryt miejsc_key wanted_woj miejsc_to_rows =
     (let rows = (case miejsc_to_rows miejsc_key of None \<Rightarrow> [] | Some l \<Rightarrow> l)
      in if rows = [] then (None, None, None)
         else
           (let filtered =
                  (case wanted_woj of
                     None \<Rightarrow> []
                   | Some ww \<Rightarrow>
                       if ww = [] then []
                       else filter (\<lambda>r. norm_key2 (fst r) = norm_key2 ww) rows);
                rows' = (if filtered \<noteq> [] then filtered else rows)
            in case hd rows' of (woj, powiat, gmina) \<Rightarrow> (or_none woj, or_none powiat, or_none gmina)))"

record indexes =
  miejsc_keys_set :: "ustring set"
  miejsc_key_to_canon :: canon_map
  miejsc_to_rows :: rows_map
  court_to_woj :: court_woj_map
  court_to_miejsc :: court_miejsc_map

text \<open>
  The state of one pass of the loop of \<open>main\<close>: the row of \<open>df\<close> that \<open>df.at\<close> writes, and
  the local variables \<open>woj\<close>, \<open>powiat\<close>, \<open>gmina\<close>, \<open>miejsc\<close>.
\<close>

record locals =
  df_row :: raport_row
  v_woj :: cell
  v_powiat :: cell
  v_gmina :: cell
  v_miejsc :: cell

text \<open>\<open>if not woj and x: df.at[i, COL_WOJ] = title_pl(x); woj = x\<close>, and the same for the two others.\<close>

definition fill_woj :: "cell \<Rightarrow> locals \<Rightarrow> locals" where
  "fill_woj x st =
     (if \<not> truthy (v_woj st) \<and> truthy x
      then st\<lparr>df_row := (df_row st)\<lparr>col_woj := Some (title_pl (or_empty x))\<rparr>, v_woj := x\<rparr>
      else st)"

definition fill_pow :: "cell \<Rightarrow> locals \<Rightarrow> locals" where
  "fill_pow x st =
     (if \<not> truthy (v_powiat st) \<and> truthy x
      then st\<lparr>df_row := (df_row st)\<lparr>col_pow := Some (title_pl (or_empty x))\<rparr>, v_powiat := x\<rparr>
      else st)"

definition fill_gmi :: "cell \<Rightarrow> locals \<Rightarrow> locals" where
  "fill_gmi x st =
     (if \<not> truthy (v_gmina st) \<and> truthy x
      then st\<lparr>df_row := (df_row st)\<lparr>col_gmi := Some (title_pl (or_empty x))\<rparr>, v_gmina := x\<rparr>
      else st)"

text \<open>\<open>miejsc = guess; df.at[i, COL_MIA] = title_pl(miejsc)\<close>\<close>

definition set_miejsc :: "ustring \<Rightarrow> locals \<Rightarrow> locals" where
  "set_miejsc g st = st\<lparr>df_row := (df_row st)\<lparr>col_mia := Some (title_pl g)\<rparr>, v_miejsc := Some g\<rparr>"

text \<open>The region of the court, when the region is missing and the court has a unique one.\<close>

definition step_court_woj :: "indexes \<Rightarrow> cell \<Rightarrow> locals \<Rightarrow> locals" where
  "step_court_woj idx court_code st =
     (case court_code of
        None \<Rightarrow> st
      | Some code \<Rightarrow>
          if \<not> truthy (v_woj st) \<and> code \<noteq> [] then
            (case court_to_woj idx code of
               None \<Rightarrow> st
             | Some w \<Rightarrow> st\<lparr>df_row := (df_row st)\<lparr>col_woj := Some (title_pl w)\<rparr>, v_woj := Some w\<rparr>)
          else st)"

text \<open>The guess from the hint against the index of teryt.csv.\<close>

definition step_guess_teryt :: "indexes \<Rightarrow> ustring \<Rightarrow> locals \<Rightarrow> py_error + locals" where
  "step_guess_teryt idx hint st =
     (if \<not> truthy (v_miejsc st) then
        (case guess_miejscowosc_from_hint hint (miejsc_keys_set idx) (miejsc_key_to_canon idx) of
           Inl e \<Rightarrow> Inl e
         | Inr guess \<Rightarrow> if truthy guess then Inr (set_miejsc (or_empty guess) st) else Inr st)
      else Inr st)"

text \<open>The guess from the hint against the localities of the court, when the locality is still missing.\<close>

definition step_guess_court :: "indexes \<Rightarrow> cell \<Rightarrow> ustring \<Rightarrow> locals \<Rightarrow> py_error + locals" where
  "step_guess_court idx court_code hint st =
     (case court_code of
        None \<Rightarrow> Inr st
      | Some code \<Rightarrow>
          if \<not> truthy (v_miejsc st) \<and> code \<noteq> [] then
            (case court_to_miejsc idx code of
               None \<Rightarrow> Inr st
             | Some m_map \<Rightarrow>
                 (case guess_miejscowosc_from_hint hint (dom m_map)
                         (\<lambda>k. map_option (\<lambda>v. snd (snd (snd v))) (m_map k)) of
                    Inl e \<Rightarrow> Inl e
                  | Inr guess_local \<Rightarrow>
                      if truthy guess_local then
                        (let st1 = set_miejsc (or_empty guess_local) st;
                             k = norm_key2 (or_empty guess_local);
                             t = (case m_map k of None \<Rightarrow> ([], [], [], []) | Some v \<Rightarrow> v)
                         in Inr (fill_gmi (Some (fst (snd (snd t))))
                                  (fill_pow (Some (fst (snd t))) (fill_woj (Some (fst t)) st1))))
                      else Inr st))
          else Inr st)"

text \<open>County, municipality and region from teryt.csv, when the locality is known.\<close>

definition step_fill_teryt :: "indexes \<Rightarrow> locals \<Rightarrow> locals" where
  "step_fill_teryt idx st =
     (if truthy (v_miejsc st) then
        (let mk = norm_key2 (or_empty (v_miejsc st));
             t = fill_from_teryt mk (v_woj st) (miejsc_to_rows idx)
         in fill_gmi (snd (snd t)) (fill_pow (fst (snd t)) (fill_woj (fst t) st)))
      else st)"

text \<open>
  The start of a pass: \<open>woj = norm_missing(row.get(COL_WOJ))\<close> and the three others; nothing
  is written yet.
\<close>

definition initial_locals :: "raport_row \<Rightarrow> locals" where
  "initial_locals row =
     \<lparr>df_row = row, v_woj = norm_missing (col_woj row), v_powiat = norm_missing (col_pow row),
      v_gmina = norm_missing (col_gmi row), v_miejsc = norm_missing (col_mia row)\<rparr>"

text \<open>One pass of the loop of \<open>main\<close>: the row of the report after it, or the exception.\<close>

definition complete_row :: "indexes \<Rightarrow> raport_row \<Rightarrow> py_error + raport_row" where
  "complete_row idx row =
     (let st0 = initial_locals row;
          court_code = extract_court_code (col_kw row);
          st1 = step_court_woj idx court_code st0;
          hint = build_hint_text row
      in case step_guess_teryt idx hint st1 of
           Inl e \<Rightarrow> Inl e
         | Inr st2 \<Rightarrow>
             (case step_guess_court idx court_code hint st2 of
                Inl e \<Rightarrow> Inl e
              | Inr st3 \<Rightarrow> Inr (df_row (step_fill_teryt idx st3))))"

section \<open>The modern regions and their spellings\<close>

text \<open>The modern names are the values of the historical map, each once.\<close>

definition MODERN_REGIONS :: "ustring list" where
  "MODERN_REGIONS = remdups (map snd HISTORICAL_BASE)"

text \<open>
  A string is a name up to case when it has, at every position, the letter of the name
  (which the map stores in upper case) or its lower-case form.
\<close>

definition case_variant_char :: "nat \<Rightarrow> nat \<Rightarrow> bool" where
  "case_variant_char c d \<longleftrightarrow> c = d \<or> c = lower_char d"

definition case_variant :: "ustring \<Rightarrow> ustring \<Rightarrow> bool" where
  "case_variant s N = list_all2 case_variant_char s N"

text \<open>What the proof needs of a character of a name: it is its own upper case, the upper
  case of its lower case, and neither form is white space.\<close>

definition name_char :: "nat \<Rightarrow> bool" where
  "name_char d \<longleftrightarrow>
     upper_char d = d \<and> upper_char (lower_char d) = d \<and>
     lower_char (lower_char d) = lower_char d \<and> \<not> is_space d \<and> \<not> is_space (lower_char d)"

section \<open>The two stages of the guess, in the words of the specification\<close>

text \<open>What the loop over the segments does to one segment before the lookup.\<close>

definition strip_street_prefix :: "ustring \<Rightarrow> ustring" where
  "strip_street_prefix seg = py_strip (sub_prefix PREFIXES (py_strip seg))"

text \<open>The keys of the segments of a hint, in the order of the text.\<close>

definition segment_keys :: "ustring \<Rightarrow> ustring list" where
  "segment_keys hint =
     map strip_street_prefix (filter (\<lambda>s. s \<noteq> []) (map norm_key2 (split_hint hint)))"

text \<open>The canonical name of the first key of a list that is in the candidate set.\<close>

definition first_in :: "ustring list \<Rightarrow> ustring set \<Rightarrow> (ustring \<rightharpoonup> ustring) \<Rightarrow> (py_error + ustring) option" where
  "first_in keys K canon = (case find (\<lambda>k. k \<in> K) keys of None \<Rightarrow> None | Some k \<Rightarrow> Some (lookup canon k))"

definition hint_words :: "ustring \<Rightarrow> ustring list" where
  "hint_words h = filter (\<lambda>w. w \<noteq> []) (split_on is_space False [] h)"

text \<open>The contiguous n-grams of a list of words, by starting offset from the left.\<close>

definition ngrams :: "nat \<Rightarrow> ustring list \<Rightarrow> ustring list" where
  "ngrams n ws = map (\<lambda>i. join (u '' '') (take n (drop i ws))) [0..<length ws + 1 - n]"

text \<open>The phrases in the order in which they are tried: the longest first.\<close>

definition ngram_phrases :: "ustring list \<Rightarrow> ustring list" where
  "ngram_phrases ws = ngrams 4 ws @ ngrams 3 ws @ ngrams 2 ws @ ngrams 1 ws"

text \<open>The hint and the two names of the example of the specification.\<close>

definition HINT_DLUGA :: ustring where
  "HINT_DLUGA = u ''ul. D'' @ [0x142] @ u ''uga, Nowy S'' @ [0x105] @ u ''cz''"

definition NOWY_SACZ :: ustring where
  "NOWY_SACZ = u ''Nowy S'' @ [0x105] @ u ''cz''"

definition SACZ :: ustring where
  "SACZ = u ''S'' @ [0x105] @ u ''cz''"

section \<open>The locality index, in the words of the specification\<close>

text \<open>The locality of a row as the index sees it, its key, and what the row adds to the list of its key.\<close>

definition t_locality :: "teryt_row \<Rightarrow> ustring" where
  "t_locality r = py_strip (or_empty (t_miejsc r))"

definition t_key :: "teryt_row \<Rightarrow> ustring" where
  "t_key r = norm_key2 (t_locality r)"

definition t_tuple :: "teryt_row \<Rightarrow> ustring \<times> ustring \<times> ustring" where
  "t_tuple r = (py_strip (or_empty (t_woj r)), py_strip (or_empty (t_pow r)), py_strip (or_empty (t_gmi r)))"

text \<open>Three rows: two spellings of one locality around a row without a locality.\<close>

definition TERYT_EXAMPLE :: "teryt_row list" where
  "TERYT_EXAMPLE =
     [\<lparr>t_woj = Some (u ''MAZOWIECKIE''), t_pow = Some (u ''Warszawa''), t_gmi = Some (u ''Warszawa''),
       t_miejsc = Some (u ''WARSZAWA'')\<rparr>,
      \<lparr>t_woj = Some (u ''MAZOWIECKIE''), t_pow = Some (u ''Radom''), t_gmi = Some (u ''Radom''),
       t_miejsc = Some []\<rparr>,
      \<lparr>t_woj = Some (u ''LUBUSKIE''), t_pow = Some (u ''krosnienski''), t_gmi = Some (u ''Dabie''),
       t_miejsc = Some (u '' Warszawa '')\<rparr>]"

section \<open>The regions of a court code, in the words of the specification\<close>

text \<open>The court code of a row, trimmed and in upper case, and the distinct non-empty regions of the rows of a code.\<close>

definition norm_code :: "obszar_row \<Rightarrow> cell" where
  "norm_code r = map_option (\<lambda>c. py_upper (py_strip c)) (o_code r)"

definition code_regions :: "obszar_row list \<Rightarrow> ustring \<Rightarrow> ustring list" where
  "code_regions rows code = remdups (woj_vals (filter (\<lambda>r. norm_code r = Some code) rows))"

text \<open>A row of the table with a court code and a region, the other cells empty.\<close>

definition obszar_rec :: "ustring \<Rightarrow> ustring \<Rightarrow> obszar_row" where
  "obszar_rec code woj = \<lparr>o_code = Some code, o_woj = Some woj, o_pow = None, o_gmi = None, o_miejsc = None\<rparr>"

definition OBSZAR_TWO :: obszar_table where
  "OBSZAR_TWO =
     \<lparr>has_oznaczenie = True,
      obszar_rows = [obszar_rec (u ''WR1K'') (u ''OPOLSKIE''), obszar_rec (u ''wr1k'') (u ''LUBUSKIE'')]\<rparr>"

definition OBSZAR_THREE :: obszar_table where
  "OBSZAR_THREE =
     \<lparr>has_oznaczenie = True,
      obszar_rows = [obszar_rec (u ''WR1K'') (u ''OPOLSKIE''), obszar_rec (u ''wr1k'') (u ''LUBUSKIE''),
        obszar_rec (u ''wr1k'') (u ''PODLASKIE'')]\<rparr>"

section \<open>Completing a row, in the words of the specification\<close>

text \<open>A cell holds a value when \<open>norm_missing\<close> does not turn it into \<open>None\<close>.\<close>

definition is_present :: "cell \<Rightarrow> bool" where
  "is_present c = truthy (norm_missing c)"

text \<open>
  Between two states of a pass: a local variable that is set stays set, and the column
  of the row that it stands for stays as it is.
\<close>

definition locked :: "locals \<Rightarrow> locals \<Rightarrow> bool" where
  "locked st st' \<longleftrightarrow>
     (\<not> truthy (v_woj st) \<or> truthy (v_woj st') \<and> col_woj (df_row st') = col_woj (df_row st)) \<and>
     (\<not> truthy (v_powiat st) \<or> truthy (v_powiat st') \<and> col_pow (df_row st') = col_pow (df_row st)) \<and>
     (\<not> truthy (v_gmina st) \<or> truthy (v_gmina st') \<and> col_gmi (df_row st') = col_gmi (df_row st)) \<and>
     (\<not> truthy (v_miejsc st) \<or> truthy (v_miejsc st') \<and> col_mia (df_row st') = col_mia (df_row st))"

text \<open>
  The two guesses of a pass, and the two orders in which they can be tried: the second
  guess is asked only when the first is empty.
\<close>

definition court_canon :: "miejsc_map \<Rightarrow> canon_map" where
  "court_canon m_map = (\<lambda>k. map_option (\<lambda>v. snd (snd (snd v))) (m_map k))"

definition guess_teryt :: "indexes \<Rightarrow> raport_row \<Rightarrow> py_error + cell" where
  "guess_teryt idx row =
     guess_miejscowosc_from_hint (build_hint_text row) (miejsc_keys_set idx) (miejsc_key_to_canon idx)"

definition guess_court :: "indexes \<Rightarrow> raport_row \<Rightarrow> py_error + cell" where
  "guess_court idx row =
     (case extract_court_code (col_kw row) of
        None \<Rightarrow> Inr None
      | Some code \<Rightarrow>
          (case court_to_miejsc idx code of
             None \<Rightarrow> Inr None
           | Some m_map \<Rightarrow>
               guess_miejscowosc_from_hint (build_hint_text row) (dom m_map) (court_canon m_map)))"

definition first_guess :: "py_error + cell \<Rightarrow> py_error + cell \<Rightarrow> py_error + cell" where
  "first_guess a b =
     (case a of Inl e \<Rightarrow> Inl e | Inr g \<Rightarrow> if truthy g then Inr g else b)"

definition locality_court_first :: "indexes \<Rightarrow> raport_row \<Rightarrow> py_error + cell" where
  "locality_court_first idx row = first_guess (guess_court idx row) (guess_teryt idx row)"

definition locality_teryt_first :: "indexes \<Rightarrow> raport_row \<Rightarrow> py_error + cell" where
  "locality_teryt_first idx row = first_guess (guess_teryt idx row) (guess_court idx row)"

text \<open>The locality of the row after a guess: the guess with \<open>title_pl\<close>, or the old cell.\<close>

definition written_locality :: "py_error + cell \<Rightarrow> cell \<Rightarrow> cell" where
  "written_locality g old =
     (case g of Inr (Some name) \<Rightarrow> if name = [] then old else Some (title_pl name) | _ \<Rightarrow> old)"

text \<open>
  An index with one locality in teryt.csv and another among the localities of the court
  \<open>WR1K\<close>, and rows to complete with it.
\<close>

definition IDX_AB :: indexes where
  "IDX_AB =
     \<lparr>miejsc_keys_set = {u ''alfa''},
      miejsc_key_to_canon = [u ''alfa'' \<mapsto> u ''ALFA''],
      miejsc_to_rows = [u ''alfa'' \<mapsto> [(LUBUSKIE, u ''POWIAT A'', u ''GMINA A'')]],
      court_to_woj = [u ''WR1K'' \<mapsto> DOLNOSLASKIE],
      court_to_miejsc =
        [u ''WR1K'' \<mapsto> [u ''beta'' \<mapsto> (DOLNOSLASKIE, u ''POWIAT B'', u ''GMINA B'', u ''BETA'')]]\<rparr>"

definition ROW_EMPTY :: raport_row where
  "ROW_EMPTY =
     \<lparr>col_woj = None, col_pow = None, col_gmi = None, col_mia = None, col_kw = None,
      col_addr_hint = None, col_caly_adres = None, col_polozenie = None, col_ulica_lokal = None,
      col_ulica_budynek = None, col_ulica = None, col_dzielnica = None\<rparr>"

definition ROW_AB :: raport_row where
  "ROW_AB = ROW_EMPTY\<lparr>col_woj := Some MAZOWIECKIE, col_kw := Some (u ''WR1K/00012345/6''),
     col_polozenie := Some (u ''Alfa, Beta'')\<rparr>"

definition ROW_WR :: raport_row where
  "ROW_WR = ROW_EMPTY\<lparr>col_woj := Some (u ''---''), col_kw := Some (u ''WR1K/00012345/6'')\<rparr>"

definition ROW_FULL :: raport_row where
  "ROW_FULL = ROW_AB\<lparr>col_pow := Some (u ''PLOCKI''), col_gmi := Some (u ''BIELSK''),
     col_mia := Some (u ''ALFA'')\<rparr>"

text \<open>The region of the example with only its first letter in upper case.\<close>

definition DOLNOSLASKIE_TITLE :: ustring where
  "DOLNOSLASKIE_TITLE = u ''Dolno'' @ [0x15B] @ u ''l'' @ [0x105] @ u ''skie''"

section \<open>Evaluation of the text functions\<close>

lemmas text_defs =
  u_def is_space_def lower_char_def upper_char_def nfkd_char_def combining_def
  py_strip_def py_lower_def py_upper_def strip_marks_def is_az_def blank_non_letters_def
  MISSING_TOKENS_def norm_missing_def norm_key2_def norm_key1_def

lemmas region_defs =
  DOLNOSLASKIE_def KUJAWSKO_POMORSKIE_def LUBELSKIE_def LUBUSKIE_def LODZKIE_def
  MALOPOLSKIE_def MAZOWIECKIE_def OPOLSKIE_def PODKARPACKIE_def PODLASKIE_def
  POMORSKIE_def SLASKIE_def SWIETOKRZYSKIE_def WARMINSKO_MAZURSKIE_def WIELKOPOLSKIE_def
  ZACHODNIOPOMORSKIE_def

text \<open>
  Looking a key up in a dictionary written out in full: the dictionary itself is left
  alone, and the updates are passed one at a time.
\<close>

lemma dict_get_cong: "k = k' \<Longrightarrow> dict_get m k = dict_get m k'"
  by simp

lemma dict_get_upd: "dict_get (m(x \<mapsto> y)) k = (if k = x then Some y else dict_get m k)"
  by (simp add: dict_get_def)

lemma dict_get_empty: "dict_get Map.empty k = None"
  by (simp add: dict_get_def)

lemmas hist_map_eval =
  HISTORICAL_VOIVODESHIP_MAP_def
    [unfolded HISTORICAL_BASE_def u_def, simplified, unfolded add_variants_def, simplified]

lemmas hist_get =
  arg_cong [where f = "\<lambda>m. dict_get m k", OF hist_map_eval] dict_get_upd dict_get_empty for k

lemmas guess_defs =
  guess_miejscowosc_from_hint_def segment_stage_def ngram_stage_def split_hint_def is_delim_def
  PREFIXES_def match_prefix_def lookup_def

section \<open>The key normaliser of stage 2 is not idempotent\<close>

text \<open>
  C10. \<open>norm_key\<close> of stage 2 lower-cases before it decomposes, so the capital letters
  that a compatibility decomposition brings in stay: the trade mark sign U+2122 has the
  key \<open>TM\<close>, and the key of \<open>TM\<close> is \<open>tm\<close>. The key of a key is then not the key, and the
  key is not in lower case as the docstring of the function says.
\<close>

theorem norm_key2_not_idempotent:
  "norm_key2 [0x2122] = u ''TM'' \<and>
   norm_key2 (norm_key2 [0x2122]) = u ''tm'' \<and>
   norm_key2 (norm_key2 [0x2122]) \<noteq> norm_key2 [0x2122]"
  by (simp add: text_defs)

section \<open>The historical names written with the letter with a stroke\<close>

text \<open>
  C3. The letter U+0142 has no decomposition, so the strict key of stage 1 has a space in
  its place: the key of \<open>PLOCKIE\<close> written with U+0141 is \<open>p ockie\<close>, which is not a key of
  the historical map, and \<open>replace_historical_voivodeship\<close> returns the name as it came,
  in upper case, and not \<open>MAZOWIECKIE\<close>. The same holds for the name in lower case; only
  the spelling without the stroke has the key \<open>plockie\<close>.
\<close>

theorem plockie_not_resolved:
  "norm_key1 (Some (u ''P'' @ [0x141] @ u ''OCKIE'')) = Some (u ''p ockie'') \<and>
   replace_historical_voivodeship (Some (u ''P'' @ [0x141] @ u ''OCKIE''))
     = Some (u ''P'' @ [0x141] @ u ''OCKIE'') \<and>
   replace_historical_voivodeship (Some (u ''p'' @ [0x142] @ u ''ockie''))
     = Some (u ''P'' @ [0x141] @ u ''OCKIE'') \<and>
   Some (u ''P'' @ [0x141] @ u ''OCKIE'') \<noteq> Some MAZOWIECKIE \<and>
   replace_historical_voivodeship (Some (u ''PLOCKIE'')) = Some MAZOWIECKIE"
  by (simp add: replace_historical_voivodeship_def text_defs hist_get MAZOWIECKIE_def
        cong: dict_get_cong)

section \<open>The modern names in any case\<close>

lemma py_strip_no_space:
  assumes "list_all (\<lambda>c. \<not> is_space c) s"
  shows "py_strip s = s"
proof (cases s rule: rev_cases)
  case Nil
  then show ?thesis by (simp add: py_strip_def)
next
  case (snoc ys y)
  with assms have last: "\<not> is_space y" by simp
  from assms have "dropWhile is_space s = s" by (cases s) auto
  with snoc last show ?thesis by (simp add: py_strip_def)
qed

lemma case_variant_facts:
  "list_all2 case_variant_char s N \<Longrightarrow> list_all name_char N \<Longrightarrow>
     py_lower s = py_lower N \<and> py_upper s = N \<and> list_all (\<lambda>c. \<not> is_space c) s"
  by (induction s N rule: list_all2_induct)
     (auto simp: py_lower_def py_upper_def case_variant_char_def name_char_def)

lemma name_char_facts:
  "list_all name_char N \<Longrightarrow> py_upper N = N \<and> list_all (\<lambda>c. \<not> is_space c) N"
  by (induction N) (auto simp: py_upper_def name_char_def)

text \<open>The resolver sees of its input only the lower case and the upper case.\<close>

lemma replace_case_variant:
  assumes "case_variant s N" and "list_all name_char N"
  shows "replace_historical_voivodeship (Some s) = replace_historical_voivodeship (Some N)"
proof -
  from assms have f: "py_lower s = py_lower N" "py_upper s = py_upper N" "py_strip s = s"
    "py_strip N = N"
    using case_variant_facts [of s N] name_char_facts [of N] py_strip_no_space
    by (auto simp: case_variant_def)
  from assms(1) have e: "s = [] \<longleftrightarrow> N = []"
    by (auto simp: case_variant_def)
  show ?thesis
    by (simp add: replace_historical_voivodeship_def norm_missing_def norm_key1_def f e Let_def
          cong: option.case_cong)
qed

lemma modern_list:
  "MODERN_REGIONS =
     [DOLNOSLASKIE, KUJAWSKO_POMORSKIE, LUBELSKIE, LUBUSKIE, LODZKIE, MALOPOLSKIE,
      MAZOWIECKIE, OPOLSKIE, PODKARPACKIE, PODLASKIE, POMORSKIE, SLASKIE, SWIETOKRZYSKIE,
      WARMINSKO_MAZURSKIE, WIELKOPOLSKIE, ZACHODNIOPOMORSKIE]"
  by (simp add: MODERN_REGIONS_def HISTORICAL_BASE_def region_defs u_def)

lemma modern_regions_16: "length MODERN_REGIONS = 16 \<and> distinct MODERN_REGIONS"
  by (simp add: MODERN_REGIONS_def HISTORICAL_BASE_def region_defs u_def)

lemma modern_name_chars: "list_all (list_all name_char) MODERN_REGIONS"
  unfolding modern_list
  by (simp add: region_defs u_def name_char_def lower_char_def upper_char_def is_space_def)

lemma modern_resolved:
  "list_all (\<lambda>N. replace_historical_voivodeship (Some N) = Some N) MODERN_REGIONS"
  unfolding modern_list
  by (simp add: replace_historical_voivodeship_def text_defs hist_get region_defs
        cong: dict_get_cong)

text \<open>
  C9. An input that is one of the sixteen modern names, each letter in upper or in lower
  case, resolves to that name in upper case.
\<close>

theorem modern_region_upper:
  assumes "N \<in> set MODERN_REGIONS" and "case_variant s N"
  shows "replace_historical_voivodeship (Some s) = Some N"
proof -
  from assms(1) modern_name_chars have "list_all name_char N"
    by (simp add: list_all_iff)
  with assms(2) have "replace_historical_voivodeship (Some s) = replace_historical_voivodeship (Some N)"
    by (rule replace_case_variant)
  also from assms(1) modern_resolved have "\<dots> = Some N"
    by (simp add: list_all_iff)
  finally show ?thesis .
qed

theorem modern_region_upper_witness:
  "DOLNOSLASKIE \<in> set MODERN_REGIONS \<and>
   case_variant (u ''dolno'' @ [0x15B] @ u ''l'' @ [0x105] @ u ''skie'') DOLNOSLASKIE \<and>
   replace_historical_voivodeship (Some (u ''dolno'' @ [0x15B] @ u ''l'' @ [0x105] @ u ''skie''))
     = Some DOLNOSLASKIE \<and>
   LODZKIE \<in> set MODERN_REGIONS \<and>
   case_variant ([0x141, 0xF3] @ u ''dzkie'') LODZKIE \<and>
   replace_historical_voivodeship (Some ([0x141, 0xF3] @ u ''dzkie'')) = Some LODZKIE \<and>
   replace_historical_voivodeship (Some (u ''KUJAWSKO-POMORSKIE'')) = Some KUJAWSKO_POMORSKIE"
proof -
  have m: "DOLNOSLASKIE \<in> set MODERN_REGIONS" "LODZKIE \<in> set MODERN_REGIONS"
    "KUJAWSKO_POMORSKIE \<in> set MODERN_REGIONS"
    by (simp_all add: modern_list)
  have v1: "case_variant (u ''dolno'' @ [0x15B] @ u ''l'' @ [0x105] @ u ''skie'') DOLNOSLASKIE"
    by (simp add: case_variant_def case_variant_char_def DOLNOSLASKIE_def u_def lower_char_def)
  have v2: "case_variant ([0x141, 0xF3] @ u ''dzkie'') LODZKIE"
    by (simp add: case_variant_def case_variant_char_def LODZKIE_def u_def lower_char_def)
  have v3: "case_variant (u ''KUJAWSKO-POMORSKIE'') KUJAWSKO_POMORSKIE"
    by (simp add: case_variant_def case_variant_char_def KUJAWSKO_POMORSKIE_def u_def)
  show ?thesis
    using m v1 v2 modern_region_upper [OF m(1) v1] modern_region_upper [OF m(2) v2]
      modern_region_upper [OF m(3) v3]
    by simp
qed

section \<open>The guess: the segments, from the last to the first\<close>

lemma first_in_Nil: "first_in [] K canon = None" by (simp add: first_in_def)

lemma first_in_Cons: "first_in (k # ks) K canon = (if k \<in> K then Some (lookup canon k) else first_in ks K canon)"
  by (simp add: first_in_def)

lemma first_in_append: "first_in (xs @ ys) K canon = (case first_in xs K canon of None \<Rightarrow> first_in ys K canon | Some r \<Rightarrow> Some r)"
  by (induction xs) (simp_all add: first_in_Nil first_in_Cons)

lemma scan_segments_first_in:
  "scan_segments segs K canon = first_in (map strip_street_prefix segs) K canon"
  by (induction segs) (simp_all add: first_in_Nil first_in_Cons strip_street_prefix_def Let_def)

lemma segment_stage_first_in: "segment_stage hint K canon = first_in (rev (segment_keys hint)) K canon"
  by (simp add: segment_stage_def segment_keys_def scan_segments_first_in rev_map Let_def)

text \<open>
  C4. The segment stage returns the canonical name of the first key, in the reversed
  list of the segment keys, that is in the candidate set; the segment keys are the
  normalised pieces of the hint between the delimiters, without a leading street prefix.
  When the normalised hint is not empty, this is what the guess returns. With a candidate
  set that has \<open>warszawa\<close> and not \<open>kwiatowa 5\<close>, both orders of the two segments of the
  example give the canonical name of \<open>warszawa\<close>.
\<close>

theorem segment_scan_reverse:
  "segment_stage hint K canon = first_in (rev (segment_keys hint)) K canon \<and>
   (norm_key2 hint \<noteq> [] \<longrightarrow> find (\<lambda>k. k \<in> K) (rev (segment_keys hint)) = Some k \<longrightarrow>
      canon k = Some name \<longrightarrow> guess_miejscowosc_from_hint hint K canon = Inr (Some name)) \<and>
   (u ''warszawa'' \<in> K' \<longrightarrow> u ''kwiatowa 5'' \<notin> K' \<longrightarrow> canon' (u ''warszawa'') = Some W \<longrightarrow>
      guess_miejscowosc_from_hint (u ''Warszawa | ul. Kwiatowa 5'') K' canon' = Inr (Some W) \<and>
      guess_miejscowosc_from_hint (u ''ul. Kwiatowa 5 | Warszawa'') K' canon' = Inr (Some W))"
proof (intro conjI impI)
  show "segment_stage hint K canon = first_in (rev (segment_keys hint)) K canon"
    by (rule segment_stage_first_in)
next
  assume "norm_key2 hint \<noteq> []" and "find (\<lambda>k. k \<in> K) (rev (segment_keys hint)) = Some k"
    and "canon k = Some name"
  then show "guess_miejscowosc_from_hint hint K canon = Inr (Some name)"
    by (simp add: guess_miejscowosc_from_hint_def segment_stage_first_in first_in_def lookup_def)
next
  assume a: "u ''warszawa'' \<in> K'" "u ''kwiatowa 5'' \<notin> K'" "canon' (u ''warszawa'') = Some W"
  have k1: "rev (segment_keys (u ''Warszawa | ul. Kwiatowa 5'')) = [u ''kwiatowa 5'', u ''warszawa'']"
    by (simp add: segment_keys_def strip_street_prefix_def guess_defs text_defs)
  have n1: "norm_key2 (u ''Warszawa | ul. Kwiatowa 5'') \<noteq> []"
    by (simp add: text_defs)
  from a n1 show "guess_miejscowosc_from_hint (u ''Warszawa | ul. Kwiatowa 5'') K' canon' = Inr (Some W)"
    by (simp add: guess_miejscowosc_from_hint_def segment_stage_first_in k1 first_in_Cons lookup_def)
  have k2: "rev (segment_keys (u ''ul. Kwiatowa 5 | Warszawa'')) = [u ''warszawa'', u ''kwiatowa 5'']"
    by (simp add: segment_keys_def strip_street_prefix_def guess_defs text_defs)
  have n2: "norm_key2 (u ''ul. Kwiatowa 5 | Warszawa'') \<noteq> []"
    by (simp add: text_defs)
  from a n2 show "guess_miejscowosc_from_hint (u ''ul. Kwiatowa 5 | Warszawa'') K' canon' = Inr (Some W)"
    by (simp add: guess_miejscowosc_from_hint_def segment_stage_first_in k2 first_in_Cons lookup_def)
qed

theorem segment_scan_reverse_witness:
  "guess_miejscowosc_from_hint (u ''Warszawa | ul. Kwiatowa 5'') {u ''warszawa''}
     [u ''warszawa'' \<mapsto> u ''Warszawa''] = Inr (Some (u ''Warszawa'')) \<and>
   guess_miejscowosc_from_hint (u ''ul. Kwiatowa 5 | Warszawa'') {u ''warszawa''}
     [u ''warszawa'' \<mapsto> u ''Warszawa''] = Inr (Some (u ''Warszawa''))"
proof -
  have k: "find (\<lambda>k. k \<in> {u ''warszawa''}) (rev (segment_keys (u ''Warszawa | ul. Kwiatowa 5'')))
      = Some (u ''warszawa'')"
    by (simp add: segment_keys_def strip_street_prefix_def guess_defs text_defs)
  have n: "norm_key2 (u ''Warszawa | ul. Kwiatowa 5'') \<noteq> []"
    by (simp add: text_defs)
  have m: "u ''warszawa'' \<in> {u ''warszawa''}" "u ''kwiatowa 5'' \<notin> {u ''warszawa''}"
    by (simp_all add: u_def)
  from segment_scan_reverse [where hint = "u ''Warszawa | ul. Kwiatowa 5''"
      and K = "{u ''warszawa''}" and canon = "[u ''warszawa'' \<mapsto> u ''Warszawa'']"
      and k = "u ''warszawa''" and name = "u ''Warszawa''" and K' = "{u ''warszawa''}"
      and canon' = "[u ''warszawa'' \<mapsto> u ''Warszawa'']" and W = "u ''Warszawa''"]
    k n m show ?thesis by simp
qed

section \<open>The guess: the n-grams, the longest first\<close>

lemma split_on_no_delim:
  "\<forall>c\<in>set cur. \<not> P c \<Longrightarrow> w \<in> set (split_on P b cur s) \<Longrightarrow> \<forall>c\<in>set w. \<not> P c"
proof (induction s arbitrary: b cur)
  case Nil
  then show ?case by simp
next
  case (Cons x xs)
  show ?case
  proof (cases "P x")
    case True
    show ?thesis
    proof (cases b)
      case True
      with \<open>P x\<close> Cons.prems(2) have "w \<in> set (split_on P True cur xs)" by simp
      with Cons.IH Cons.prems(1) show ?thesis by blast
    next
      case False
      with \<open>P x\<close> Cons.prems(2) have "w = cur \<or> w \<in> set (split_on P True [] xs)" by simp
      then show ?thesis
      proof
        assume "w = cur"
        with Cons.prems(1) show ?thesis by simp
      next
        assume "w \<in> set (split_on P True [] xs)"
        with Cons.IH [of "[]" True] show ?thesis by simp
      qed
    qed
  next
    case False
    with Cons.prems(2) have "w \<in> set (split_on P False (cur @ [x]) xs)" by simp
    moreover from False Cons.prems(1) have "\<forall>c\<in>set (cur @ [x]). \<not> P c" by simp
    ultimately show ?thesis using Cons.IH by blast
  qed
qed

lemma join_hd_last:
  "ws \<noteq> [] \<Longrightarrow> \<forall>w\<in>set ws. w \<noteq> [] \<Longrightarrow>
     join sep ws \<noteq> [] \<and> hd (join sep ws) = hd (hd ws) \<and> last (join sep ws) = last (last ws)"
  by (induction sep ws rule: join.induct) auto

lemma py_strip_ends:
  assumes "s = [] \<or> (\<not> is_space (hd s) \<and> \<not> is_space (last s))"
  shows "py_strip s = s"
proof (cases "s = []")
  case True
  then show ?thesis by (simp add: py_strip_def)
next
  case False
  with assms have h: "\<not> is_space (hd s)" and l: "\<not> is_space (last s)" by auto
  from False h have d1: "dropWhile is_space s = s" by (cases s) auto
  from False l have d2: "dropWhile is_space (rev s) = rev s" by (cases s rule: rev_cases) auto
  show ?thesis by (simp add: py_strip_def d1 d2)
qed

lemma phrase_strip:
  assumes "\<forall>w\<in>set ws. w \<noteq> [] \<and> (\<forall>c\<in>set w. \<not> is_space c)"
  shows "py_strip (join sep (take n (drop i ws))) = join sep (take n (drop i ws))"
proof -
  define p where "p = take n (drop i ws)"
  have sub: "set p \<subseteq> set ws"
    unfolding p_def using set_take_subset [of n "drop i ws"] set_drop_subset [of i ws] by blast
  have "py_strip (join sep p) = join sep p"
  proof (cases "p = []")
    case True
    then show ?thesis by (simp add: py_strip_def)
  next
    case False
    from sub assms have ne: "\<forall>w\<in>set p. w \<noteq> []" by blast
    from False have "hd p \<in> set p" and "last p \<in> set p" by simp_all
    with sub assms have "hd p \<noteq> []" "last p \<noteq> []" "\<forall>c\<in>set (hd p). \<not> is_space c"
      "\<forall>c\<in>set (last p). \<not> is_space c" by blast+
    then have "\<not> is_space (hd (hd p))" and "\<not> is_space (last (last p))" by simp_all
    with join_hd_last [OF False ne, of sep] show ?thesis by (intro py_strip_ends) simp
  qed
  then show ?thesis by (simp add: p_def)
qed

lemma scan_offsets_first_in:
  assumes "\<forall>w\<in>set ws. w \<noteq> [] \<and> (\<forall>c\<in>set w. \<not> is_space c)"
  shows "scan_offsets n ws is K canon = first_in (map (\<lambda>i. join (u '' '') (take n (drop i ws))) is) K canon"
  by (induction "is") (simp_all add: first_in_Nil first_in_Cons Let_def phrase_strip [OF assms])

lemma scan_ngrams_first_in:
  assumes "\<forall>w\<in>set ws. w \<noteq> [] \<and> (\<forall>c\<in>set w. \<not> is_space c)"
  shows "scan_ngrams ns ws K canon = first_in (concat (map (\<lambda>n. ngrams n ws) ns)) K canon"
proof (induction ns)
  case Nil then show ?case by (simp add: first_in_Nil)
next
  case (Cons n ns)
  show ?case
  proof (cases "length ws < n")
    case True
    then have "ngrams n ws = []" by (simp add: ngrams_def)
    with True Cons show ?thesis by simp
  next
    case False
    then have "length ws - n + 1 = length ws + 1 - n" by simp
    with False Cons show ?thesis
      by (simp add: first_in_append ngrams_def scan_offsets_first_in [OF assms]
            cong: option.case_cong)
  qed
qed

lemma hint_words_ok: "\<forall>w\<in>set (hint_words h). w \<noteq> [] \<and> (\<forall>c\<in>set w. \<not> is_space c)"
  using split_on_no_delim [of "[]" is_space _ False h] by (auto simp: hint_words_def)

lemma ngram_stage_first_in: "ngram_stage h K canon = first_in (ngram_phrases (hint_words h)) K canon"
  using scan_ngrams_first_in [OF hint_words_ok, of "[4,3,2,1]" h K canon]
  by (simp add: ngram_stage_def ngram_phrases_def hint_words_def Let_def)

lemma dluga_key: "norm_key2 HINT_DLUGA = u ''ul. d'' @ [0x142] @ u ''uga, nowy sacz''"
  by (simp add: HINT_DLUGA_def text_defs)

lemma dluga_words:
  "hint_words (norm_key2 HINT_DLUGA) = [u ''ul.'', u ''d'' @ [0x142] @ u ''uga,'', u ''nowy'', u ''sacz'']"
  unfolding dluga_key by (simp add: hint_words_def u_def is_space_def)

lemma dluga_phrases:
  "ngram_phrases (hint_words (norm_key2 HINT_DLUGA)) =
     [u ''ul. d'' @ [0x142] @ u ''uga, nowy sacz'',
      u ''ul. d'' @ [0x142] @ u ''uga, nowy'', u ''d'' @ [0x142] @ u ''uga, nowy sacz'',
      u ''ul. d'' @ [0x142] @ u ''uga,'', u ''d'' @ [0x142] @ u ''uga, nowy'', u ''nowy sacz'',
      u ''ul.'', u ''d'' @ [0x142] @ u ''uga,'', u ''nowy'', u ''sacz'']"
  unfolding dluga_words by (simp add: ngram_phrases_def ngrams_def upt_rec u_def)

lemma dluga_segments: "rev (segment_keys HINT_DLUGA) = [u ''nowy sacz'', u ''d'' @ [0x142] @ u ''uga'']"
  by (simp add: HINT_DLUGA_def segment_keys_def strip_street_prefix_def guess_defs text_defs)

text \<open>
  C5. The n-gram stage returns the canonical name of the first phrase that is in the
  candidate set, in the list that has the 4-grams of the words of the normalised hint,
  then the 3-grams, the 2-grams and the single words, each by starting offset from the
  left. When no segment matches, this is what the guess returns. For the hint of the
  example, and candidates that have the keys \<open>sacz\<close> and \<open>nowy sacz\<close>, the guess is the
  canonical name of \<open>nowy sacz\<close>; the n-gram stage alone gives the same name.
\<close>

theorem ngram_longest_first:
  "ngram_stage h K canon = first_in (ngram_phrases (hint_words h)) K canon \<and>
   ngram_phrases ws = ngrams 4 ws @ ngrams 3 ws @ ngrams 2 ws @ ngrams 1 ws \<and>
   ngrams n ws = map (\<lambda>i. join (u '' '') (take n (drop i ws))) [0..<length ws + 1 - n] \<and>
   (norm_key2 hint \<noteq> [] \<longrightarrow> find (\<lambda>k. k \<in> K) (rev (segment_keys hint)) = None \<longrightarrow>
      find (\<lambda>p. p \<in> K) (ngram_phrases (hint_words (norm_key2 hint))) = Some p \<longrightarrow>
      canon p = Some name \<longrightarrow> guess_miejscowosc_from_hint hint K canon = Inr (Some name)) \<and>
   (u ''sacz'' \<in> K' \<longrightarrow> u ''nowy sacz'' \<in> K' \<longrightarrow> canon' (u ''nowy sacz'') = Some NOWY_SACZ \<longrightarrow>
      guess_miejscowosc_from_hint HINT_DLUGA K' canon' = Inr (Some NOWY_SACZ)) \<and>
   ngram_stage (norm_key2 HINT_DLUGA) {u ''sacz'', u ''nowy sacz''}
     [u ''sacz'' \<mapsto> SACZ, u ''nowy sacz'' \<mapsto> NOWY_SACZ] = Some (Inr NOWY_SACZ)"
proof (intro conjI impI)
  show "ngram_stage h K canon = first_in (ngram_phrases (hint_words h)) K canon"
    by (rule ngram_stage_first_in)
  show "ngram_phrases ws = ngrams 4 ws @ ngrams 3 ws @ ngrams 2 ws @ ngrams 1 ws"
    by (rule ngram_phrases_def)
  show "ngrams n ws = map (\<lambda>i. join (u '' '') (take n (drop i ws))) [0..<length ws + 1 - n]"
    by (rule ngrams_def)
next
  assume "norm_key2 hint \<noteq> []" and "find (\<lambda>k. k \<in> K) (rev (segment_keys hint)) = None"
    and "find (\<lambda>p. p \<in> K) (ngram_phrases (hint_words (norm_key2 hint))) = Some p"
    and "canon p = Some name"
  then show "guess_miejscowosc_from_hint hint K canon = Inr (Some name)"
    by (simp add: guess_miejscowosc_from_hint_def segment_stage_first_in ngram_stage_first_in
          first_in_def lookup_def)
next
  assume "u ''sacz'' \<in> K'" and "u ''nowy sacz'' \<in> K'" and "canon' (u ''nowy sacz'') = Some NOWY_SACZ"
  moreover have "norm_key2 HINT_DLUGA \<noteq> []"
    unfolding dluga_key by (simp add: u_def)
  ultimately show "guess_miejscowosc_from_hint HINT_DLUGA K' canon' = Inr (Some NOWY_SACZ)"
    by (simp add: guess_miejscowosc_from_hint_def segment_stage_first_in dluga_segments
          first_in_Cons lookup_def)
next
  show "ngram_stage (norm_key2 HINT_DLUGA) {u ''sacz'', u ''nowy sacz''}
     [u ''sacz'' \<mapsto> SACZ, u ''nowy sacz'' \<mapsto> NOWY_SACZ] = Some (Inr NOWY_SACZ)"
    unfolding ngram_stage_first_in dluga_phrases
    by (simp add: first_in_Cons lookup_def u_def)
qed

theorem ngram_longest_first_witness:
  "guess_miejscowosc_from_hint HINT_DLUGA {u ''sacz'', u ''nowy sacz''}
     [u ''sacz'' \<mapsto> SACZ, u ''nowy sacz'' \<mapsto> NOWY_SACZ] = Inr (Some NOWY_SACZ) \<and>
   guess_miejscowosc_from_hint (u ''Nowy S'' @ [0x105] @ u ''cz 5'') {u ''sacz'', u ''nowy sacz''}
     [u ''sacz'' \<mapsto> SACZ, u ''nowy sacz'' \<mapsto> NOWY_SACZ] = Inr (Some NOWY_SACZ)"
proof -
  let ?K = "{u ''sacz'', u ''nowy sacz''}"
  let ?canon = "[u ''sacz'' \<mapsto> SACZ, u ''nowy sacz'' \<mapsto> NOWY_SACZ]"
  let ?hint = "u ''Nowy S'' @ [0x105] @ u ''cz 5''"
  have n: "norm_key2 ?hint = u ''nowy sacz 5''"
    by (simp add: text_defs)
  have n0: "norm_key2 ?hint \<noteq> []"
    unfolding n by (simp add: u_def)
  have s: "find (\<lambda>k. k \<in> ?K) (rev (segment_keys ?hint)) = None"
    by (simp add: segment_keys_def strip_street_prefix_def guess_defs text_defs)
  have p: "find (\<lambda>p. p \<in> ?K) (ngram_phrases (hint_words (norm_key2 ?hint))) = Some (u ''nowy sacz'')"
    unfolding n by (simp add: ngram_phrases_def ngrams_def hint_words_def upt_rec u_def is_space_def)
  have m: "u ''sacz'' \<in> ?K" "u ''nowy sacz'' \<in> ?K" "?canon (u ''nowy sacz'') = Some NOWY_SACZ"
    by (simp_all add: u_def)
  from ngram_longest_first [where hint = ?hint and K = ?K and p = "u ''nowy sacz''"
      and canon = ?canon and name = NOWY_SACZ and K' = ?K and canon' = ?canon]
    n0 s p m show ?thesis by simp
qed

section \<open>The locality index keeps the first spelling and the order of the rows\<close>

lemma norm_key2_Nil: "norm_key2 [] = []"
  by (simp add: text_defs)

lemma find_Some_ex: "(\<exists>z. find P xs = Some z) \<longleftrightarrow> (\<exists>x\<in>set xs. P x)"
  by (induction xs) auto

lemma teryt_step_key:
  "teryt_step r st =
     (if t_key r = [] then st
      else (setdefault (fst st) (t_key r) (t_locality r),
            (snd st)(t_key r \<mapsto> (case snd st (t_key r) of None \<Rightarrow> [] | Some l \<Rightarrow> l) @ [t_tuple r])))"
  by (auto simp: teryt_step_def t_key_def t_locality_def t_tuple_def Let_def norm_key2_Nil)

lemma fold_teryt_canon:
  "fst (fold teryt_step rows st) k =
     (case fst st k of
        Some v \<Rightarrow> Some v
      | None \<Rightarrow> if k = [] then None else map_option t_locality (find (\<lambda>r. t_key r = k) rows))"
proof (induction rows arbitrary: st)
  case Nil
  then show ?case by (simp split: option.split)
next
  case (Cons r rows)
  have "fst (fold teryt_step (r # rows) st) k = fst (fold teryt_step rows (teryt_step r st)) k"
    by simp
  also have "\<dots> =
     (case fst (teryt_step r st) k of
        Some v \<Rightarrow> Some v
      | None \<Rightarrow> if k = [] then None else map_option t_locality (find (\<lambda>r. t_key r = k) rows))"
    by (rule Cons.IH)
  also have "\<dots> =
     (case fst st k of
        Some v \<Rightarrow> Some v
      | None \<Rightarrow> if k = [] then None else map_option t_locality (find (\<lambda>r. t_key r = k) (r # rows)))"
    by (simp add: teryt_step_key setdefault_def split: option.split)
  finally show ?case .
qed

lemma fold_teryt_rows:
  "snd (fold teryt_step rows st) k =
     (if k = [] \<or> filter (\<lambda>r. t_key r = k) rows = [] then snd st k
      else Some ((case snd st k of None \<Rightarrow> [] | Some l \<Rightarrow> l) @ map t_tuple (filter (\<lambda>r. t_key r = k) rows)))"
proof (induction rows arbitrary: st)
  case Nil
  then show ?case by simp
next
  case (Cons r rows)
  let ?f = "\<lambda>rs. filter (\<lambda>r. t_key r = k) rs"
  have "snd (fold teryt_step (r # rows) st) k = snd (fold teryt_step rows (teryt_step r st)) k"
    by simp
  also have "\<dots> =
     (if k = [] \<or> ?f rows = [] then snd (teryt_step r st) k
      else Some ((case snd (teryt_step r st) k of None \<Rightarrow> [] | Some l \<Rightarrow> l) @ map t_tuple (?f rows)))"
    by (rule Cons.IH)
  also have "\<dots> =
     (if k = [] \<or> ?f (r # rows) = [] then snd st k
      else Some ((case snd st k of None \<Rightarrow> [] | Some l \<Rightarrow> l) @ map t_tuple (?f (r # rows))))"
    by (simp add: teryt_step_key split: option.split)
  finally show ?case .
qed

text \<open>
  C7. The index built from the rows of teryt.csv has a canonical spelling and a list of
  rows for exactly the non-empty keys of the rows. The spelling is the locality of the
  first row with the key; the list has the (region, county, municipality) of all the rows
  with the key, in the order of the input. A row with an empty locality has the empty
  key, so it adds nothing.
\<close>

theorem teryt_index_first_wins:
  "fst (build_teryt_index rows) = {k. k \<noteq> [] \<and> (\<exists>r\<in>set rows. t_key r = k)} \<and>
   fst (snd (build_teryt_index rows)) k =
     (if k = [] then None else map_option t_locality (find (\<lambda>r. t_key r = k) rows)) \<and>
   snd (snd (build_teryt_index rows)) k =
     (if k = [] \<or> filter (\<lambda>r. t_key r = k) rows = [] then None
      else Some (map t_tuple (filter (\<lambda>r. t_key r = k) rows)))"
proof (intro conjI)
  have c: "fst (snd (build_teryt_index rows)) k' =
     (if k' = [] then None else map_option t_locality (find (\<lambda>r. t_key r = k') rows))" for k'
    by (simp add: build_teryt_index_def Let_def fold_teryt_canon)
  then show "fst (snd (build_teryt_index rows)) k =
     (if k = [] then None else map_option t_locality (find (\<lambda>r. t_key r = k) rows))" .
  have "fst (build_teryt_index rows) = dom (fst (snd (build_teryt_index rows)))"
    by (simp add: build_teryt_index_def Let_def)
  also have "\<dots> = {k. k \<noteq> [] \<and> (\<exists>r\<in>set rows. t_key r = k)}"
  proof -
    have "k' \<in> dom (fst (snd (build_teryt_index rows))) \<longleftrightarrow>
        k' \<noteq> [] \<and> (\<exists>r\<in>set rows. t_key r = k')" for k'
      unfolding domIff c by (simp add: find_Some_ex)
    then show ?thesis by blast
  qed
  finally show "fst (build_teryt_index rows) = {k. k \<noteq> [] \<and> (\<exists>r\<in>set rows. t_key r = k)}" .
  show "snd (snd (build_teryt_index rows)) k =
     (if k = [] \<or> filter (\<lambda>r. t_key r = k) rows = [] then None
      else Some (map t_tuple (filter (\<lambda>r. t_key r = k) rows)))"
    by (simp add: build_teryt_index_def Let_def fold_teryt_rows)
qed

theorem teryt_index_first_wins_witness:
  "fst (build_teryt_index TERYT_EXAMPLE) = {u ''warszawa''} \<and>
   fst (snd (build_teryt_index TERYT_EXAMPLE)) (u ''warszawa'') = Some (u ''WARSZAWA'') \<and>
   snd (snd (build_teryt_index TERYT_EXAMPLE)) (u ''warszawa'') =
     Some [(u ''MAZOWIECKIE'', u ''Warszawa'', u ''Warszawa''),
           (u ''LUBUSKIE'', u ''krosnienski'', u ''Dabie'')]"
proof -
  have k: "map t_key TERYT_EXAMPLE = [u ''warszawa'', [], u ''warszawa'']"
    by (simp add: TERYT_EXAMPLE_def t_key_def t_locality_def or_empty_def text_defs)
  have l: "map t_locality TERYT_EXAMPLE = [u ''WARSZAWA'', [], u ''Warszawa'']"
    by (simp add: TERYT_EXAMPLE_def t_locality_def or_empty_def text_defs)
  have t: "map t_tuple TERYT_EXAMPLE =
      [(u ''MAZOWIECKIE'', u ''Warszawa'', u ''Warszawa''), (u ''MAZOWIECKIE'', u ''Radom'', u ''Radom''),
       (u ''LUBUSKIE'', u ''krosnienski'', u ''Dabie'')]"
    by (simp add: TERYT_EXAMPLE_def t_tuple_def or_empty_def text_defs)
  have w: "u ''warszawa'' \<noteq> []"
    by (simp add: u_def)
  have s: "{k. k \<noteq> [] \<and> (\<exists>r\<in>set TERYT_EXAMPLE. t_key r = k)} = {u ''warszawa''}"
    using k w by (auto simp: TERYT_EXAMPLE_def)
  from teryt_index_first_wins [of TERYT_EXAMPLE "u ''warszawa''"] k l t w s show ?thesis
    by (simp add: TERYT_EXAMPLE_def)
qed

section \<open>A region recorded for a court code with several regions\<close>

lemma keys2: "group_keys (obszar_rows OBSZAR_TWO) = [u ''WR1K'', u ''wr1k'']"
  by (simp add: group_keys_def OBSZAR_TWO_def obszar_rec_def List.map_filter_def u_def)

lemma keys3: "group_keys (obszar_rows OBSZAR_THREE) = [u ''WR1K'', u ''wr1k'']"
  by (simp add: group_keys_def OBSZAR_THREE_def obszar_rec_def List.map_filter_def u_def)

text \<open>
  C8. \<open>build_obszar_index\<close> groups the rows by the court code as it stands in the table and
  trims and upper-cases the code only afterwards, so two spellings of one code are two
  groups that write the same entry. With the rows \<open>WR1K\<close>, \<open>OPOLSKIE\<close> and \<open>wr1k\<close>,
  \<open>LUBUSKIE\<close> the code \<open>WR1K\<close> has two regions and the index records the second; with a
  third row \<open>wr1k\<close>, \<open>PODLASKIE\<close> the second group records nothing and the region of the
  first group stays.
\<close>

theorem court_region_recorded_despite_two:
  "code_regions (obszar_rows OBSZAR_TWO) (u ''WR1K'') = [u ''OPOLSKIE'', u ''LUBUSKIE''] \<and>
   fst (build_obszar_index OBSZAR_TWO) (u ''WR1K'') = Some (u ''LUBUSKIE'') \<and>
   code_regions (obszar_rows OBSZAR_THREE) (u ''WR1K'') = [u ''OPOLSKIE'', u ''LUBUSKIE'', u ''PODLASKIE''] \<and>
   fst (build_obszar_index OBSZAR_THREE) (u ''WR1K'') = Some (u ''OPOLSKIE'')"
proof (intro conjI)
  show "code_regions (obszar_rows OBSZAR_TWO) (u ''WR1K'') = [u ''OPOLSKIE'', u ''LUBUSKIE'']"
    by (simp add: code_regions_def norm_code_def woj_vals_def OBSZAR_TWO_def obszar_rec_def
          List.map_filter_def text_defs)
  show "fst (build_obszar_index OBSZAR_TWO) (u ''WR1K'') = Some (u ''LUBUSKIE'')"
    unfolding build_obszar_index_def keys2
    by (simp add: obszar_group_step_def woj_vals_def OBSZAR_TWO_def obszar_rec_def
          List.map_filter_def text_defs Let_def)
  show "code_regions (obszar_rows OBSZAR_THREE) (u ''WR1K'') = [u ''OPOLSKIE'', u ''LUBUSKIE'', u ''PODLASKIE'']"
    by (simp add: code_regions_def norm_code_def woj_vals_def OBSZAR_THREE_def obszar_rec_def
          List.map_filter_def text_defs)
  show "fst (build_obszar_index OBSZAR_THREE) (u ''WR1K'') = Some (u ''OPOLSKIE'')"
    unfolding build_obszar_index_def keys3
    by (simp add: obszar_group_step_def woj_vals_def OBSZAR_THREE_def obszar_rec_def
          List.map_filter_def text_defs Let_def)
qed

section \<open>A pass over a row writes only into missing fields\<close>

lemma locked_refl: "locked st st"
  by (simp add: locked_def)

lemma locked_trans: "locked st st' \<Longrightarrow> locked st' st'' \<Longrightarrow> locked st st''"
  by (auto simp: locked_def)

lemma locked_fill_woj: "locked st (fill_woj x st)"
  by (simp add: locked_def fill_woj_def)

lemma locked_fill_pow: "locked st (fill_pow x st)"
  by (simp add: locked_def fill_pow_def)

lemma locked_fill_gmi: "locked st (fill_gmi x st)"
  by (simp add: locked_def fill_gmi_def)

lemma locked_fill_all: "locked st (fill_gmi z (fill_pow y (fill_woj x st)))"
  by (blast intro: locked_trans locked_fill_woj locked_fill_pow locked_fill_gmi)

lemma locked_set_miejsc: "\<not> truthy (v_miejsc st) \<Longrightarrow> locked st (set_miejsc g st)"
  by (simp add: locked_def set_miejsc_def)

lemma locked_court_woj: "locked st (step_court_woj idx code st)"
  by (simp add: locked_def step_court_woj_def split: option.split)

lemma locked_guess_teryt: "step_guess_teryt idx hint st = Inr st' \<Longrightarrow> locked st st'"
  by (auto simp: step_guess_teryt_def locked_refl locked_set_miejsc split: if_splits sum.splits)

lemma locked_guess_court:
  assumes "step_guess_court idx code hint st = Inr st'"
  shows "locked st st'"
proof (cases "st' = st")
  case True
  then show ?thesis by (simp add: locked_refl)
next
  case False
  with assms obtain g x y z where "\<not> truthy (v_miejsc st)"
    and "st' = fill_gmi z (fill_pow y (fill_woj x (set_miejsc g st)))"
    by (auto simp: step_guess_court_def Let_def split: option.splits if_splits sum.splits)
  then show ?thesis
    by (blast intro: locked_trans locked_set_miejsc locked_fill_all)
qed

lemma locked_fill_teryt: "locked st (step_fill_teryt idx st)"
  by (simp add: step_fill_teryt_def Let_def locked_refl locked_fill_all)

text \<open>A pass that ends without an exception: the states after the first step and at the end.\<close>

lemma complete_row_steps:
  assumes "complete_row idx row = Inr row'"
  shows "\<exists>st. locked (step_court_woj idx (extract_court_code (col_kw row)) (initial_locals row)) st \<and>
           df_row st = row'"
proof -
  let ?code = "extract_court_code (col_kw row)"
  let ?st1 = "step_court_woj idx ?code (initial_locals row)"
  let ?hint = "build_hint_text row"
  from assms obtain st2 st3 where
    s2: "step_guess_teryt idx ?hint ?st1 = Inr st2" and
    s3: "step_guess_court idx ?code ?hint st2 = Inr st3" and
    r: "row' = df_row (step_fill_teryt idx st3)"
    by (auto simp: complete_row_def initial_locals_def Let_def split: sum.splits)
  from s2 have "locked ?st1 st2" by (rule locked_guess_teryt)
  moreover from s3 have "locked st2 st3" by (rule locked_guess_court)
  moreover have "locked st3 (step_fill_teryt idx st3)" by (rule locked_fill_teryt)
  ultimately have "locked ?st1 (step_fill_teryt idx st3)" by (blast intro: locked_trans)
  with r show ?thesis by blast
qed

lemma complete_row_locked:
  assumes "complete_row idx row = Inr row'"
  shows "\<exists>st. locked (initial_locals row) st \<and> df_row st = row'"
  using complete_row_steps [OF assms] locked_court_woj [of "initial_locals row" idx]
  by (blast intro: locked_trans)

lemma complete_row_all_present:
  assumes "is_present (col_woj row)" "is_present (col_pow row)" "is_present (col_gmi row)"
    "is_present (col_mia row)"
  shows "complete_row idx row = Inr row"
  using assms
  by (simp add: complete_row_def initial_locals_def Let_def is_present_def step_court_woj_def
        step_guess_teryt_def
        step_guess_court_def step_fill_teryt_def fill_woj_def fill_pow_def fill_gmi_def
        split: option.split)

lemma first_in_total:
  "K \<subseteq> dom canon \<Longrightarrow>
     first_in keys K canon = None \<or> (\<exists>v. first_in keys K canon = Some (Inr v))"
  by (induction keys) (auto simp: first_in_Nil first_in_Cons lookup_def split: option.splits)

lemma guess_total:
  assumes "K \<subseteq> dom canon"
  shows "\<exists>g. guess_miejscowosc_from_hint hint K canon = Inr g"
  using first_in_total [OF assms, of "rev (segment_keys hint)"]
    first_in_total [OF assms, of "ngram_phrases (hint_words (norm_key2 hint))"]
  by (auto simp: guess_miejscowosc_from_hint_def segment_stage_first_in ngram_stage_first_in Let_def)

lemma complete_row_total:
  assumes "miejsc_keys_set idx = dom (miejsc_key_to_canon idx)"
  shows "\<exists>row'. complete_row idx row = Inr row'"
proof -
  have g1: "\<exists>g. guess_miejscowosc_from_hint hint (miejsc_keys_set idx) (miejsc_key_to_canon idx) = Inr g"
    for hint
    using assms by (intro guess_total) simp
  have t: "\<exists>st'. step_guess_teryt idx hint st = Inr st'" for hint st
    using g1 [of hint] by (auto simp: step_guess_teryt_def)
  have g2: "\<exists>g. guess_miejscowosc_from_hint hint (dom m)
      (\<lambda>k. map_option (\<lambda>v. snd (snd (snd v))) (m k)) = Inr g"
    for hint and m :: miejsc_map
    by (intro guess_total) (auto simp: dom_def)
  have c: "\<exists>st'. step_guess_court idx code hint st = Inr st'" for code hint st
  proof (cases "\<exists>c m. code = Some c \<and> \<not> truthy (v_miejsc st) \<and> c \<noteq> [] \<and> court_to_miejsc idx c = Some m")
    case True
    then obtain c m where cm: "code = Some c" "\<not> truthy (v_miejsc st)" "c \<noteq> []"
      "court_to_miejsc idx c = Some m" by blast
    from g2 [of hint m] obtain g where "guess_miejscowosc_from_hint hint (dom m)
      (\<lambda>k. map_option (\<lambda>v. snd (snd (snd v))) (m k)) = Inr g" ..
    with cm show ?thesis by (simp add: step_guess_court_def Let_def)
  next
    case False
    then have "step_guess_court idx code hint st = Inr st"
      by (auto simp: step_guess_court_def split: option.splits)
    then show ?thesis ..
  qed
  from t obtain st2 where "step_guess_teryt idx (build_hint_text row)
      (step_court_woj idx (extract_court_code (col_kw row)) (initial_locals row)) = Inr st2"
    by blast
  moreover from c obtain st3 where
    "step_guess_court idx (extract_court_code (col_kw row)) (build_hint_text row) st2 = Inr st3"
    by blast
  ultimately show ?thesis by (simp add: complete_row_def initial_locals_def Let_def)
qed

text \<open>
  C2. When a pass over a row ends, each of the four administrative fields that held a
  non-missing value before the pass holds the same value after it. A pass over a row
  whose four fields are all non-missing returns the row as it was. A pass ends without an
  exception whenever the key set of the index is the set of keys of its dictionary of
  canonical names, as \<open>build_teryt_index\<close> makes it.
\<close>

theorem present_fields_kept:
  "(complete_row idx row = Inr row' \<longrightarrow>
      (is_present (col_woj row) \<longrightarrow> col_woj row' = col_woj row) \<and>
      (is_present (col_pow row) \<longrightarrow> col_pow row' = col_pow row) \<and>
      (is_present (col_gmi row) \<longrightarrow> col_gmi row' = col_gmi row) \<and>
      (is_present (col_mia row) \<longrightarrow> col_mia row' = col_mia row)) \<and>
   (is_present (col_woj row) \<and> is_present (col_pow row) \<and> is_present (col_gmi row) \<and>
      is_present (col_mia row) \<longrightarrow> complete_row idx row = Inr row) \<and>
   (miejsc_keys_set idx = dom (miejsc_key_to_canon idx) \<longrightarrow> (\<exists>r. complete_row idx row = Inr r))"
proof (intro conjI impI)
  assume a: "complete_row idx row = Inr row'"
  from complete_row_locked [OF a] obtain st where
    st: "locked (initial_locals row) st" "df_row st = row'"
    by blast
  { assume "is_present (col_woj row)"
    with st show "col_woj row' = col_woj row"
      by (auto simp: locked_def initial_locals_def is_present_def) }
  { assume "is_present (col_pow row)"
    with st show "col_pow row' = col_pow row"
      by (auto simp: locked_def initial_locals_def is_present_def) }
  { assume "is_present (col_gmi row)"
    with st show "col_gmi row' = col_gmi row"
      by (auto simp: locked_def initial_locals_def is_present_def) }
  { assume "is_present (col_mia row)"
    with st show "col_mia row' = col_mia row"
      by (auto simp: locked_def initial_locals_def is_present_def) }
next
  assume "is_present (col_woj row) \<and> is_present (col_pow row) \<and> is_present (col_gmi row) \<and>
      is_present (col_mia row)"
  then show "complete_row idx row = Inr row"
    by (intro complete_row_all_present) simp_all
next
  assume "miejsc_keys_set idx = dom (miejsc_key_to_canon idx)"
  then show "\<exists>r. complete_row idx row = Inr r" by (rule complete_row_total)
qed

lemma hint_ab: "build_hint_text ROW_AB = u ''Alfa, Beta''"
  by (simp add: ROW_AB_def ROW_EMPTY_def build_hint_text_def HINT_COLS_def truthy_def text_defs
        MAZOWIECKIE_def)

lemma code_ab: "extract_court_code (col_kw ROW_AB) = Some (u ''WR1K'')"
  by (simp add: ROW_AB_def ROW_EMPTY_def extract_court_code_def is_letter_i_def is_digit_def text_defs)

lemma guess_teryt_ab: "guess_teryt IDX_AB ROW_AB = Inr (Some (u ''ALFA''))"
  unfolding guess_teryt_def hint_ab
  by (simp add: IDX_AB_def guess_defs segment_keys_def text_defs)

lemma guess_court_ab: "guess_court IDX_AB ROW_AB = Inr (Some (u ''BETA''))"
  unfolding guess_court_def hint_ab code_ab
  by (simp add: IDX_AB_def court_canon_def guess_defs text_defs)

lemma init_ab:
  "initial_locals ROW_AB =
     \<lparr>df_row = ROW_AB, v_woj = Some MAZOWIECKIE, v_powiat = None, v_gmina = None, v_miejsc = None\<rparr>"
  by (simp add: initial_locals_def ROW_AB_def ROW_EMPTY_def MAZOWIECKIE_def text_defs)

lemma step1_ab:
  "step_court_woj IDX_AB (Some (u ''WR1K'')) (initial_locals ROW_AB) = initial_locals ROW_AB"
  unfolding init_ab by (simp add: step_court_woj_def truthy_def MAZOWIECKIE_def u_def)

lemma step2_ab:
  "step_guess_teryt IDX_AB (u ''Alfa, Beta'') (initial_locals ROW_AB)
     = Inr (set_miejsc (u ''ALFA'') (initial_locals ROW_AB))"
  using guess_teryt_ab unfolding init_ab
  by (simp add: guess_teryt_def hint_ab step_guess_teryt_def truthy_def or_empty_def u_def)

lemma step3_ab:
  "step_guess_court IDX_AB (Some (u ''WR1K'')) (u ''Alfa, Beta'') (set_miejsc (u ''ALFA'') (initial_locals ROW_AB))
     = Inr (set_miejsc (u ''ALFA'') (initial_locals ROW_AB))"
  unfolding init_ab by (simp add: step_guess_court_def set_miejsc_def truthy_def u_def)

lemma key_alfa: "norm_key2 (u ''ALFA'') = u ''alfa''"
  by (simp add: text_defs)

lemma key_mazowieckie: "norm_key2 MAZOWIECKIE = u ''mazowieckie''"
  by (simp add: text_defs MAZOWIECKIE_def)

lemma key_lubuskie: "norm_key2 LUBUSKIE = u ''lubuskie''"
  by (simp add: text_defs LUBUSKIE_def)

lemma rows_alfa: "miejsc_to_rows IDX_AB (u ''alfa'') = Some [(LUBUSKIE, u ''POWIAT A'', u ''GMINA A'')]"
  by (simp add: IDX_AB_def)

lemma fill_ab:
  "fill_from_teryt (norm_key2 (u ''ALFA'')) (Some MAZOWIECKIE) (miejsc_to_rows IDX_AB)
     = (Some LUBUSKIE, Some (u ''POWIAT A''), Some (u ''GMINA A''))"
  unfolding fill_from_teryt_def key_alfa rows_alfa
  by (simp add: key_mazowieckie key_lubuskie or_none_def u_def region_defs)

lemma title_upper: "title_pl (u ''ALFA'') = u ''ALFA'' \<and> title_pl (u ''POWIAT A'') = u ''POWIAT A'' \<and>
    title_pl (u ''GMINA A'') = u ''GMINA A''"
  by (simp add: title_pl_def text_defs)

lemma step4_ab:
  "df_row (step_fill_teryt IDX_AB (set_miejsc (u ''ALFA'') (initial_locals ROW_AB)))
     = ROW_AB\<lparr>col_pow := Some (u ''POWIAT A''), col_gmi := Some (u ''GMINA A''),
            col_mia := Some (u ''ALFA'')\<rparr>"
  using fill_ab title_upper unfolding init_ab
  by (simp add: step_fill_teryt_def set_miejsc_def or_empty_def truthy_def fill_woj_def
        fill_pow_def fill_gmi_def MAZOWIECKIE_def u_def)

lemma mia_missing_ab: "\<not> is_present (col_mia ROW_AB)"
  by (simp add: is_present_def ROW_AB_def ROW_EMPTY_def norm_missing_def truthy_def)

lemma court_first_ab: "locality_court_first IDX_AB ROW_AB = Inr (Some (u ''BETA''))"
  by (simp add: locality_court_first_def first_guess_def guess_court_ab truthy_def u_def)

lemma teryt_first_ab: "locality_teryt_first IDX_AB ROW_AB = Inr (Some (u ''ALFA''))"
  by (simp add: locality_teryt_first_def first_guess_def guess_teryt_ab truthy_def u_def)

lemma complete_ab:
  "complete_row IDX_AB ROW_AB =
     Inr (ROW_AB\<lparr>col_pow := Some (u ''POWIAT A''), col_gmi := Some (u ''GMINA A''),
            col_mia := Some (u ''ALFA'')\<rparr>)"
  by (simp add: complete_row_def Let_def hint_ab code_ab step1_ab step2_ab step3_ab step4_ab)

lemma court_code_nonempty: "extract_court_code x = Some c \<Longrightarrow> c \<noteq> []"
  by (auto simp: extract_court_code_def split: option.splits if_splits list.splits)

lemma fill_mia [simp]:
  "col_mia (df_row (fill_woj x st)) = col_mia (df_row st)"
  "col_mia (df_row (fill_pow x st)) = col_mia (df_row st)"
  "col_mia (df_row (fill_gmi x st)) = col_mia (df_row st)"
  "v_miejsc (fill_woj x st) = v_miejsc st"
  "v_miejsc (fill_pow x st) = v_miejsc st"
  "v_miejsc (fill_gmi x st) = v_miejsc st"
  by (simp_all add: fill_woj_def fill_pow_def fill_gmi_def)

lemma court_woj_mia [simp]:
  "col_mia (df_row (step_court_woj idx code st)) = col_mia (df_row st)"
  "v_miejsc (step_court_woj idx code st) = v_miejsc st"
  by (simp_all add: step_court_woj_def split: option.split)

lemma fill_teryt_mia [simp]: "col_mia (df_row (step_fill_teryt idx st)) = col_mia (df_row st)"
  by (simp add: step_fill_teryt_def Let_def)

lemma set_miejsc_mia [simp]:
  "col_mia (df_row (set_miejsc g st)) = Some (title_pl g)"
  "v_miejsc (set_miejsc g st) = Some g"
  by (simp_all add: set_miejsc_def)

lemma truthy_or_empty: "truthy g \<Longrightarrow> truthy (Some (or_empty g))"
  by (cases g) (simp_all add: truthy_def or_empty_def)

lemma guess_teryt_mia:
  assumes "step_guess_teryt idx (build_hint_text row) st = Inr st2" and "\<not> truthy (v_miejsc st)"
  shows "\<exists>g. guess_teryt idx row = Inr g \<and>
           (if truthy g then truthy (v_miejsc st2) \<and> col_mia (df_row st2) = Some (title_pl (or_empty g))
            else st2 = st)"
proof -
  from assms obtain g where g: "guess_teryt idx row = Inr g"
    by (auto simp: step_guess_teryt_def guess_teryt_def split: sum.splits)
  with assms have "if truthy g then st2 = set_miejsc (or_empty g) st else st2 = st"
    by (auto simp: step_guess_teryt_def guess_teryt_def)
  then have "if truthy g then truthy (v_miejsc st2) \<and> col_mia (df_row st2) = Some (title_pl (or_empty g))
      else st2 = st"
    by (simp add: truthy_or_empty split: if_splits)
  with g show ?thesis by blast
qed

lemma guess_court_mia:
  assumes "step_guess_court idx (extract_court_code (col_kw row)) (build_hint_text row) st = Inr st3"
    and "\<not> truthy (v_miejsc st)"
  shows "\<exists>g. guess_court idx row = Inr g \<and>
           col_mia (df_row st3) = (if truthy g then Some (title_pl (or_empty g)) else col_mia (df_row st))"
proof (cases "extract_court_code (col_kw row)")
  case None
  with assms show ?thesis by (simp add: step_guess_court_def guess_court_def truthy_def)
next
  case (Some code)
  then have ne: "code \<noteq> []" by (rule court_code_nonempty)
  show ?thesis
  proof (cases "court_to_miejsc idx code")
    case None
    with assms Some ne show ?thesis by (simp add: step_guess_court_def guess_court_def truthy_def)
  next
    case m: (Some m_map)
    from assms Some ne m obtain g where
      g: "guess_miejscowosc_from_hint (build_hint_text row) (dom m_map) (court_canon m_map) = Inr g"
      by (auto simp: step_guess_court_def court_canon_def split: sum.splits)
    with assms Some ne m have "col_mia (df_row st3) =
        (if truthy g then Some (title_pl (or_empty g)) else col_mia (df_row st))"
      by (auto simp: step_guess_court_def court_canon_def Let_def split: if_splits)
    with g Some m show ?thesis by (simp add: guess_court_def)
  qed
qed

lemma written_truthy:
  "written_locality (Inr g) old = (if truthy g then Some (title_pl (or_empty g)) else old)"
  by (simp add: written_locality_def truthy_def or_empty_def split: option.split)

lemma complete_row_locality:
  assumes "complete_row idx row = Inr row'" and "\<not> is_present (col_mia row)"
  shows "\<exists>g. locality_teryt_first idx row = Inr g \<and> col_mia row' = written_locality (Inr g) (col_mia row)"
proof -
  let ?code = "extract_court_code (col_kw row)"
  let ?st1 = "step_court_woj idx ?code (initial_locals row)"
  let ?hint = "build_hint_text row"
  from assms(1) obtain st2 st3 where
    s2: "step_guess_teryt idx ?hint ?st1 = Inr st2" and
    s3: "step_guess_court idx ?code ?hint st2 = Inr st3" and
    r: "row' = df_row (step_fill_teryt idx st3)"
    by (auto simp: complete_row_def Let_def split: sum.splits)
  from assms(2) have m1: "\<not> truthy (v_miejsc ?st1)" and c1: "col_mia (df_row ?st1) = col_mia row"
    by (simp_all add: initial_locals_def is_present_def)
  from guess_teryt_mia [OF s2 m1] obtain g where
    g: "guess_teryt idx row = Inr g" and
    g2: "if truthy g then truthy (v_miejsc st2) \<and> col_mia (df_row st2) = Some (title_pl (or_empty g))
         else st2 = ?st1"
    by blast
  show ?thesis
  proof (cases "truthy g")
    case True
    with g2 have t: "truthy (v_miejsc st2)" and c: "col_mia (df_row st2) = Some (title_pl (or_empty g))"
      by simp_all
    from s3 t have "st3 = st2"
      by (auto simp: step_guess_court_def split: option.splits)
    with r c have "col_mia row' = Some (title_pl (or_empty g))" by simp
    with g True show ?thesis
      by (simp add: locality_teryt_first_def first_guess_def written_truthy)
  next
    case False
    with g2 have e: "st2 = ?st1" by simp
    from guess_court_mia [OF s3 [unfolded e] m1] c1 obtain g' where
      g': "guess_court idx row = Inr g'" and
      c: "col_mia (df_row st3) = (if truthy g' then Some (title_pl (or_empty g')) else col_mia row)"
      by auto
    from r c have "col_mia row' = written_locality (Inr g') (col_mia row)"
      by (simp add: written_truthy)
    moreover from g g' False have "locality_teryt_first idx row = Inr (if truthy g' then g' else g')"
      by (simp add: locality_teryt_first_def first_guess_def)
    ultimately show ?thesis by simp
  qed
qed

text \<open>
  C1, as the code has it. For a row with a missing locality, the pass tries the hint
  first against the index of teryt.csv and only then, when that gave nothing, against
  the localities of the court of the registry number; the locality written is the first
  guess found, with its first letter in upper case, and the three other fields keep a
  value that was present.
\<close>

theorem locality_teryt_then_court:
  "\<not> is_present (col_mia row) \<longrightarrow> complete_row idx row = Inr row' \<longrightarrow>
     col_mia row' = written_locality (locality_teryt_first idx row) (col_mia row) \<and>
     (is_present (col_woj row) \<longrightarrow> col_woj row' = col_woj row) \<and>
     (is_present (col_pow row) \<longrightarrow> col_pow row' = col_pow row) \<and>
     (is_present (col_gmi row) \<longrightarrow> col_gmi row' = col_gmi row)"
proof (intro impI conjI)
  assume m: "\<not> is_present (col_mia row)" and a: "complete_row idx row = Inr row'"
  from complete_row_locality [OF a m]
  show "col_mia row' = written_locality (locality_teryt_first idx row) (col_mia row)"
    by auto
  from complete_row_locked [OF a] obtain st where
    st: "locked (initial_locals row) st" "df_row st = row'"
    by blast
  { assume "is_present (col_woj row)"
    with st show "col_woj row' = col_woj row"
      by (auto simp: locked_def initial_locals_def is_present_def) }
  { assume "is_present (col_pow row)"
    with st show "col_pow row' = col_pow row"
      by (auto simp: locked_def initial_locals_def is_present_def) }
  { assume "is_present (col_gmi row)"
    with st show "col_gmi row' = col_gmi row"
      by (auto simp: locked_def initial_locals_def is_present_def) }
qed

text \<open>
  C1, as stated, fails: with \<open>alfa\<close> in the index of teryt.csv and \<open>beta\<close> among the
  localities of the court, the hint \<open>Alfa, Beta\<close> gives \<open>BETA\<close> when the index of the court
  is asked first, and the pass writes \<open>ALFA\<close>.
\<close>

theorem court_index_not_first:
  "\<not> is_present (col_mia ROW_AB) \<and>
   locality_court_first IDX_AB ROW_AB = Inr (Some (u ''BETA'')) \<and>
   complete_row IDX_AB ROW_AB =
     Inr (ROW_AB\<lparr>col_pow := Some (u ''POWIAT A''), col_gmi := Some (u ''GMINA A''),
            col_mia := Some (u ''ALFA'')\<rparr>) \<and>
   Some (u ''ALFA'') \<noteq> Some (title_pl (u ''BETA''))"
  using mia_missing_ab court_first_ab complete_ab title_upper
  by (simp add: title_pl_def text_defs)

theorem locality_teryt_then_court_witness:
  "\<not> is_present (col_mia ROW_AB) \<and>
   complete_row IDX_AB ROW_AB =
     Inr (ROW_AB\<lparr>col_pow := Some (u ''POWIAT A''), col_gmi := Some (u ''GMINA A''),
            col_mia := Some (u ''ALFA'')\<rparr>) \<and>
   written_locality (locality_teryt_first IDX_AB ROW_AB) (col_mia ROW_AB) = Some (u ''ALFA'') \<and>
   is_present (col_woj ROW_AB) \<and>
   col_woj (ROW_AB\<lparr>col_pow := Some (u ''POWIAT A''), col_gmi := Some (u ''GMINA A''),
            col_mia := Some (u ''ALFA'')\<rparr>) = col_woj ROW_AB"
proof -
  have p: "is_present (col_woj ROW_AB)"
    by (simp add: is_present_def ROW_AB_def ROW_EMPTY_def truthy_def MAZOWIECKIE_def text_defs)
  from locality_teryt_then_court [of ROW_AB IDX_AB
      "ROW_AB\<lparr>col_pow := Some (u ''POWIAT A''), col_gmi := Some (u ''GMINA A''),
            col_mia := Some (u ''ALFA'')\<rparr>"]
    mia_missing_ab complete_ab p
  show ?thesis by simp
qed

lemma present_full:
  "is_present (col_woj ROW_FULL) \<and> is_present (col_pow ROW_FULL) \<and> is_present (col_gmi ROW_FULL) \<and>
   is_present (col_mia ROW_FULL)"
  by (simp add: is_present_def ROW_FULL_def ROW_AB_def ROW_EMPTY_def truthy_def MAZOWIECKIE_def
        text_defs)

lemma idx_ab_keys: "miejsc_keys_set IDX_AB = dom (miejsc_key_to_canon IDX_AB)"
  by (simp add: IDX_AB_def)

theorem present_fields_kept_witness:
  "is_present (col_woj ROW_AB) \<and>
   complete_row IDX_AB ROW_AB =
     Inr (ROW_AB\<lparr>col_pow := Some (u ''POWIAT A''), col_gmi := Some (u ''GMINA A''),
            col_mia := Some (u ''ALFA'')\<rparr>) \<and>
   col_woj (ROW_AB\<lparr>col_pow := Some (u ''POWIAT A''), col_gmi := Some (u ''GMINA A''),
            col_mia := Some (u ''ALFA'')\<rparr>) = col_woj ROW_AB \<and>
   is_present (col_woj ROW_FULL) \<and> is_present (col_pow ROW_FULL) \<and> is_present (col_gmi ROW_FULL) \<and>
   is_present (col_mia ROW_FULL) \<and> complete_row IDX_AB ROW_FULL = Inr ROW_FULL \<and>
   miejsc_keys_set IDX_AB = dom (miejsc_key_to_canon IDX_AB)"
proof -
  have p: "is_present (col_woj ROW_AB)"
    by (simp add: is_present_def ROW_AB_def ROW_EMPTY_def truthy_def MAZOWIECKIE_def text_defs)
  from present_fields_kept [of IDX_AB ROW_AB
      "ROW_AB\<lparr>col_pow := Some (u ''POWIAT A''), col_gmi := Some (u ''GMINA A''),
            col_mia := Some (u ''ALFA'')\<rparr>"]
    present_fields_kept [of IDX_AB ROW_FULL ROW_FULL] complete_ab p present_full idx_ab_keys
  show ?thesis by simp
qed

lemma woj_missing_wr: "\<not> is_present (col_woj ROW_WR)"
  by (simp add: is_present_def ROW_WR_def ROW_EMPTY_def truthy_def text_defs)

lemma code_wr: "extract_court_code (Some (u ''WR1K/00012345/6'')) = Some (u ''WR1K'')"
  by (simp add: extract_court_code_def is_letter_i_def is_digit_def text_defs)

lemma title_dolnoslaskie: "title_pl DOLNOSLASKIE = DOLNOSLASKIE"
  by (simp add: title_pl_def DOLNOSLASKIE_def text_defs)

lemma hint_wr: "build_hint_text ROW_WR = []"
  by (simp add: ROW_WR_def ROW_EMPTY_def build_hint_text_def HINT_COLS_def truthy_def norm_missing_def)

lemma guess_empty: "guess_miejscowosc_from_hint [] K canon = Inr None"
  by (simp add: guess_miejscowosc_from_hint_def text_defs)

lemma complete_wr: "complete_row IDX_AB ROW_WR = Inr (ROW_WR\<lparr>col_woj := Some DOLNOSLASKIE\<rparr>)"
proof -
  have i: "initial_locals ROW_WR =
      \<lparr>df_row = ROW_WR, v_woj = None, v_powiat = None, v_gmina = None, v_miejsc = None\<rparr>"
    by (simp add: initial_locals_def ROW_WR_def ROW_EMPTY_def text_defs)
  have c: "extract_court_code (col_kw ROW_WR) = Some (u ''WR1K'')"
    using code_wr by (simp add: ROW_WR_def ROW_EMPTY_def)
  have w: "court_to_woj IDX_AB (u ''WR1K'') = Some DOLNOSLASKIE"
    by (simp add: IDX_AB_def)
  have n: "u ''WR1K'' \<noteq> []"
    by (simp add: u_def)
  have s1: "step_court_woj IDX_AB (Some (u ''WR1K'')) (initial_locals ROW_WR) =
      \<lparr>df_row = ROW_WR\<lparr>col_woj := Some DOLNOSLASKIE\<rparr>, v_woj = Some DOLNOSLASKIE,
        v_powiat = None, v_gmina = None, v_miejsc = None\<rparr>"
    unfolding i by (simp add: step_court_woj_def w n title_dolnoslaskie truthy_def)
  have m: "\<exists>m. court_to_miejsc IDX_AB (u ''WR1K'') = Some m"
    by (simp add: IDX_AB_def)
  then obtain m where m: "court_to_miejsc IDX_AB (u ''WR1K'') = Some m" ..
  show ?thesis
    by (simp add: complete_row_def Let_def c hint_wr s1 n m step_guess_teryt_def
          step_guess_court_def step_fill_teryt_def guess_empty truthy_def)
qed

text \<open>
  C6, as the code has it. For a row with a missing region whose registry number has a
  court code with a non-empty region in the index, the pass writes that region with its
  first character in upper case and the rest as it is, whatever the hint columns hold.
  The registry number of the example has the code \<open>WR1K\<close>, and the region of the example,
  all in capitals, is written as it is.
\<close>

theorem court_region_fill:
  "(\<not> is_present (col_woj row) \<longrightarrow> extract_court_code (col_kw row) = Some code \<longrightarrow>
      court_to_woj idx code = Some w \<longrightarrow> w \<noteq> [] \<longrightarrow> complete_row idx row = Inr row' \<longrightarrow>
      col_woj row' = Some (title_pl w)) \<and>
   extract_court_code (Some (u ''WR1K/00012345/6'')) = Some (u ''WR1K'') \<and>
   title_pl DOLNOSLASKIE = DOLNOSLASKIE"
proof (intro conjI impI)
  assume m: "\<not> is_present (col_woj row)" and c: "extract_court_code (col_kw row) = Some code"
    and w: "court_to_woj idx code = Some w" and n: "w \<noteq> []"
    and a: "complete_row idx row = Inr row'"
  let ?st1 = "step_court_woj idx (Some code) (initial_locals row)"
  from c have "code \<noteq> []" by (rule court_code_nonempty)
  with m w have s1: "v_woj ?st1 = Some w" "col_woj (df_row ?st1) = Some (title_pl w)"
    by (simp_all add: step_court_woj_def initial_locals_def is_present_def)
  from complete_row_steps [OF a] c obtain st where "locked ?st1 st" and "df_row st = row'"
    by auto
  with s1 n show "col_woj row' = Some (title_pl w)"
    by (auto simp: locked_def truthy_def)
next
  show "extract_court_code (Some (u ''WR1K/00012345/6'')) = Some (u ''WR1K'')"
    by (rule code_wr)
  show "title_pl DOLNOSLASKIE = DOLNOSLASKIE"
    by (rule title_dolnoslaskie)
qed

text \<open>
  C6, as stated, fails: the region written for the example is the name in capitals, not
  the name with only its first letter in upper case.
\<close>

theorem court_region_not_title_case:
  "\<not> is_present (col_woj ROW_WR) \<and> col_kw ROW_WR = Some (u ''WR1K/00012345/6'') \<and>
   court_to_woj IDX_AB (u ''WR1K'') = Some DOLNOSLASKIE \<and>
   complete_row IDX_AB ROW_WR = Inr (ROW_WR\<lparr>col_woj := Some DOLNOSLASKIE\<rparr>) \<and>
   DOLNOSLASKIE \<noteq> DOLNOSLASKIE_TITLE"
  using woj_missing_wr complete_wr
  by (simp add: ROW_WR_def ROW_EMPTY_def IDX_AB_def DOLNOSLASKIE_def DOLNOSLASKIE_TITLE_def u_def)

theorem court_region_fill_witness:
  "\<not> is_present (col_woj ROW_WR) \<and>
   extract_court_code (col_kw ROW_WR) = Some (u ''WR1K'') \<and>
   court_to_woj IDX_AB (u ''WR1K'') = Some DOLNOSLASKIE \<and> DOLNOSLASKIE \<noteq> [] \<and>
   complete_row IDX_AB ROW_WR = Inr (ROW_WR\<lparr>col_woj := Some DOLNOSLASKIE\<rparr>) \<and>
   col_woj (ROW_WR\<lparr>col_woj := Some DOLNOSLASKIE\<rparr>) = Some (title_pl DOLNOSLASKIE)"
proof -
  have c: "extract_court_code (col_kw ROW_WR) = Some (u ''WR1K'')"
    using code_wr by (simp add: ROW_WR_def ROW_EMPTY_def)
  have w: "court_to_woj IDX_AB (u ''WR1K'') = Some DOLNOSLASKIE"
    by (simp add: IDX_AB_def)
  have n: "DOLNOSLASKIE \<noteq> []"
    by (simp add: DOLNOSLASKIE_def u_def)
  from court_region_fill [of ROW_WR "u ''WR1K''" IDX_AB DOLNOSLASKIE
      "ROW_WR\<lparr>col_woj := Some DOLNOSLASKIE\<rparr>"]
    woj_missing_wr c w n complete_wr
  show ?thesis by simp
qed

section \<open>The resolver on the keys of the historical dictionary\<close>

lemma py_strip_idem: "py_strip (py_strip s) = py_strip s"
proof -
  define t where "t = dropWhile is_space s"
  define r where "r = rev (dropWhile is_space (rev t))"
  have r: "py_strip s = r" by (simp add: py_strip_def t_def r_def)
  have "r = [] \<or> (\<not> is_space (hd r) \<and> \<not> is_space (last r))"
  proof (cases "r = []")
    case True
    then show ?thesis by simp
  next
    case False
    have "rev (takeWhile is_space (rev t) @ dropWhile is_space (rev t)) = rev (rev t)"
      by (simp only: takeWhile_dropWhile_id)
    then have t: "t = r @ rev (takeWhile is_space (rev t))"
      by (simp only: rev_append rev_rev_ident r_def)
    with False have "hd t = hd r" and "t \<noteq> []" by (metis hd_append2, auto)
    moreover from \<open>t \<noteq> []\<close> have "\<not> is_space (hd t)"
      unfolding t_def by (rule hd_dropWhile)
    moreover from False have "dropWhile is_space (rev t) \<noteq> []" by (simp add: r_def)
    then have "\<not> is_space (hd (dropWhile is_space (rev t)))" by (rule hd_dropWhile)
    with False have "\<not> is_space (last r)" by (simp add: r_def last_rev)
    ultimately show ?thesis by simp
  qed
  then have "py_strip r = r" by (rule py_strip_ends)
  with r show ?thesis by simp
qed

lemma missing_token_keys_all:
  "list_all (\<lambda>t. py_strip (collapse_ws False (blank_non_letters (strip_marks t)))
                  \<in> {[], u ''brak'', u ''brak danych'', u ''nan'', u ''none''}) MISSING_TOKENS"
  by (simp add: text_defs)

lemma missing_token_keys:
  assumes "t \<in> set MISSING_TOKENS"
  shows "py_strip (collapse_ws False (blank_non_letters (strip_marks t)))
           \<in> {[], u ''brak'', u ''brak danych'', u ''nan'', u ''none''}"
  using assms missing_token_keys_all by (simp only: list_all_iff)

lemma missing_keys_unmapped_all:
  "list_all (\<lambda>k. dict_get HISTORICAL_VOIVODESHIP_MAP k = None)
     [u ''brak'', u ''brak danych'', u ''nan'', u ''none'']"
  by (simp add: hist_get u_def cong: dict_get_cong)

lemma missing_keys_unmapped:
  assumes "k \<in> {u ''brak'', u ''brak danych'', u ''nan'', u ''none''}"
  shows "dict_get HISTORICAL_VOIVODESHIP_MAP k = None"
proof -
  from assms have "k \<in> set [u ''brak'', u ''brak danych'', u ''nan'', u ''none'']" by simp
  with missing_keys_unmapped_all show ?thesis by (simp only: list_all_iff)
qed

text \<open>
  An input whose strict key is a key of the historical dictionary resolves to the value
  stored for the key.
\<close>

lemma historical_key_resolved:
  assumes k: "norm_key1 (Some s) = Some k" and v: "HISTORICAL_VOIVODESHIP_MAP k = Some v"
  shows "replace_historical_voivodeship (Some s) = Some v"
proof -
  let ?key = "\<lambda>x. py_strip (collapse_ws False (blank_non_letters (strip_marks x)))"
  from k have s: "s \<noteq> []" and key: "?key (py_lower (py_strip s)) = k" and ne: "k \<noteq> []"
    by (auto simp: norm_key1_def Let_def split: if_splits)
  have e: "?key (py_lower []) = []"
    by (simp add: text_defs)
  have strip: "py_strip s \<noteq> []"
  proof
    assume "py_strip s = []"
    with key e have "k = []" by (simp only:)
    with ne show False ..
  qed
  have "py_lower (py_strip s) \<notin> set MISSING_TOKENS"
  proof
    assume "py_lower (py_strip s) \<in> set MISSING_TOKENS"
    from missing_token_keys [OF this] key ne
    have "k \<in> {u ''brak'', u ''brak danych'', u ''nan'', u ''none''}" by simp
    then have "dict_get HISTORICAL_VOIVODESHIP_MAP k = None" by (rule missing_keys_unmapped)
    with v show False by (simp add: dict_get_def)
  qed
  then have m: "norm_missing (Some s) = Some (py_strip s)"
    by (simp add: norm_missing_def)
  from strip key ne have k': "norm_key1 (Some (py_strip s)) = Some k"
    by (simp add: norm_key1_def py_strip_idem)
  from m k' v show ?thesis
    by (simp add: replace_historical_voivodeship_def dict_get_def)
qed

lemma historical_base_49: "length HISTORICAL_BASE = 49 \<and> distinct (map fst HISTORICAL_BASE)"
  by (simp add: HISTORICAL_BASE_def u_def)

section \<open>One group of the court table\<close>

text \<open>
  One group of the court table writes the entry of its code when it has exactly one
  region, and otherwise leaves the entry as the groups before it left it.
\<close>

lemma group_step_region:
  "fst (obszar_group_step rows key st) (py_upper (py_strip key)) =
     (if length (remdups (woj_vals (filter (\<lambda>r. o_code r = Some key) rows))) = 1
      then Some (hd (woj_vals (filter (\<lambda>r. o_code r = Some key) rows)))
      else fst st (py_upper (py_strip key)))"
  by (simp add: obszar_group_step_def Let_def)

end
